theory Spec2Isabelle
  imports Main "HOL-Library.Word"
begin

section \<open>JavaScript strings and the built-ins the generator calls\<close>

text \<open>
  A JavaScript string is a sequence of 16-bit code units. Literals of the source are
  written \<open>js ''...''\<close>. The empty string is the only falsy string, so a truthiness
  test on a string is a comparison with \<open>[]\<close>.
\<close>

type_synonym jschar = "16 word"
type_synonym jsstring = "jschar list"

definition js :: "string \<Rightarrow> jsstring" where
  "js s = map (\<lambda>c. of_nat (of_char c)) s"

text \<open>
  \<open>String.prototype.trim\<close> removes leading and trailing WhiteSpace and LineTerminator
  code units (ECMAScript: TAB, VT, FF, SP, NBSP, ZWNBSP, the Unicode space separators,
  LF, CR, LS, PS).
\<close>

definition isWhiteSpace :: "jschar \<Rightarrow> bool" where
  "isWhiteSpace c =
     (unat c \<in> {0x9, 0xA, 0xB, 0xC, 0xD, 0x20, 0xA0, 0x1680, 0x2028, 0x2029,
                0x202F, 0x205F, 0x3000, 0xFEFF}
      \<or> (0x2000 \<le> unat c \<and> unat c \<le> 0x200A))"

definition trim :: "jsstring \<Rightarrow> jsstring" where
  "trim s = rev (dropWhile isWhiteSpace (rev (dropWhile isWhiteSpace s)))"

text \<open>\<open>Array.prototype.join\<close> on an array of strings.\<close>

fun join :: "jsstring \<Rightarrow> jsstring list \<Rightarrow> jsstring" where
  "join sep [] = []"
| "join sep [x] = x"
| "join sep (x # y # ys) = x @ sep @ join sep (y # ys)"

text \<open>
  Numbers. The years and the page size are integers (the data model of the
  specification), which the code holds in JavaScript numbers. A number holds every
  integer of magnitude up to \<open>2^53\<close> exactly (\<open>isExactInteger\<close>). On these,
  \<open>Number.prototype.toString\<close> and a template literal give the decimal digits, with a
  leading minus sign for a negative one, and \<open>+\<close> gives the exact sum when the sum is in
  the range too. Beyond the range not every integer is a number, sums are rounded, and
  from \<open>1e21\<close> the text is in exponent notation: none of this is modelled.
  \<open>numberToString\<close> and \<open>numberAdd\<close> are unspecified there, and what is proved about
  printed numbers is proved for safe integers (\<open>Number.isSafeInteger\<close>: magnitude at
  most \<open>2^53 - 1\<close>).
\<close>

definition isExactInteger :: "int \<Rightarrow> bool" where
  "isExactInteger i = (- 9007199254740992 \<le> i \<and> i \<le> 9007199254740992)"

definition isSafeInteger :: "int \<Rightarrow> bool" where
  "isSafeInteger i = (- 9007199254740991 \<le> i \<and> i \<le> 9007199254740991)"

definition digitChar :: "nat \<Rightarrow> jschar" where
  "digitChar d = of_nat (48 + d)"

fun natToString :: "nat \<Rightarrow> jsstring" where
  "natToString n =
     (if n < 10 then [digitChar n] else natToString (n div 10) @ [digitChar (n mod 10)])"

declare natToString.simps [simp del]

definition numberToString :: "int \<Rightarrow> jsstring" where
  "numberToString i =
     (if isExactInteger i
      then (if i < 0 then of_nat 45 # natToString (nat (- i)) else natToString (nat i))
      else undefined)"

definition numberAdd :: "int \<Rightarrow> int \<Rightarrow> int" where
  "numberAdd a b =
     (if isExactInteger a \<and> isExactInteger b \<and> isExactInteger (a + b) then a + b
      else undefined)"

subsection \<open>Surrogates, UTF-8 and percent-encoding\<close>

definition isHighSurrogate :: "jschar \<Rightarrow> bool" where
  "isHighSurrogate c = (0xD800 \<le> unat c \<and> unat c \<le> 0xDBFF)"

definition isLowSurrogate :: "jschar \<Rightarrow> bool" where
  "isLowSurrogate c = (0xDC00 \<le> unat c \<and> unat c \<le> 0xDFFF)"

definition surrogatePair :: "jschar \<Rightarrow> jschar \<Rightarrow> nat" where
  "surrogatePair h l = (unat h - 0xD800) * 0x400 + (unat l - 0xDC00) + 0x10000"

definition utf8 :: "nat \<Rightarrow> nat list" where
  "utf8 cp =
     (if cp < 0x80 then [cp]
      else if cp < 0x800 then [0xC0 + cp div 0x40, 0x80 + cp mod 0x40]
      else if cp < 0x10000 then
        [0xE0 + cp div 0x1000, 0x80 + (cp div 0x40) mod 0x40, 0x80 + cp mod 0x40]
      else
        [0xF0 + cp div 0x40000, 0x80 + (cp div 0x1000) mod 0x40,
         0x80 + (cp div 0x40) mod 0x40, 0x80 + cp mod 0x40])"

definition hexDigit :: "nat \<Rightarrow> jschar" where
  "hexDigit d = (if d < 10 then of_nat (48 + d) else of_nat (55 + d))"

definition percentByte :: "nat \<Rightarrow> jsstring" where
  "percentByte b = [of_nat 37, hexDigit (b div 16), hexDigit (b mod 16)]"

definition percentBytes :: "nat list \<Rightarrow> jsstring" where
  "percentBytes bs = concat (map percentByte bs)"

definition isAlphaNum :: "jschar \<Rightarrow> bool" where
  "isAlphaNum c =
     ((0x30 \<le> unat c \<and> unat c \<le> 0x39) \<or> (0x41 \<le> unat c \<and> unat c \<le> 0x5A)
      \<or> (0x61 \<le> unat c \<and> unat c \<le> 0x7A))"

text \<open>
  \<open>encodeURIComponent\<close> (ECMAScript Encode with the unreserved set of a URI component:
  alphanumerics and \<open>- _ . ! ~ * ' ( )\<close>). Any other code point is written as the
  percent-encoded octets of its UTF-8 form; an unpaired surrogate throws URIError.
\<close>

datatype error = URIError | Error jsstring

definition uriUnescaped :: "jschar \<Rightarrow> bool" where
  "uriUnescaped c = (isAlphaNum c \<or> c \<in> set (js ''-_.!~*'()''))"

fun encodeURIComponent :: "jsstring \<Rightarrow> error + jsstring" where
  "encodeURIComponent [] = Inr []"
| "encodeURIComponent (c # cs) =
     (if uriUnescaped c then map_sum id ((@) [c]) (encodeURIComponent cs)
      else if isHighSurrogate c then
        (case cs of
           [] \<Rightarrow> Inl URIError
         | d # ds \<Rightarrow>
             if isLowSurrogate d
             then map_sum id ((@) (percentBytes (utf8 (surrogatePair c d))))
                    (encodeURIComponent ds)
             else Inl URIError)
      else if isLowSurrogate c then Inl URIError
      else map_sum id ((@) (percentBytes (utf8 (unat c)))) (encodeURIComponent cs))"

subsection \<open>URLSearchParams\<close>

text \<open>
  A \<open>URLSearchParams\<close> object is an ordered list of name-value pairs of USVStrings
  (WHATWG URL). Converting a string to a USVString replaces every unpaired surrogate by
  U+FFFD. \<open>toString\<close> is the \<open>application/x-www-form-urlencoded\<close> serializer: names and
  values are UTF-8 encoded, a space becomes \<open>+\<close>, the bytes of alphanumerics and of
  \<open>* - . _\<close> are kept, and every other byte is percent-encoded.
\<close>

fun toUSVString :: "jsstring \<Rightarrow> jsstring" where
  "toUSVString [] = []"
| "toUSVString (c # cs) =
     (if isHighSurrogate c then
        (case cs of
           [] \<Rightarrow> [of_nat 0xFFFD]
         | d # ds \<Rightarrow>
             if isLowSurrogate d then c # d # toUSVString ds
             else of_nat 0xFFFD # toUSVString cs)
      else if isLowSurrogate c then of_nat 0xFFFD # toUSVString cs
      else c # toUSVString cs)"

fun utf8Encode :: "jsstring \<Rightarrow> nat list" where
  "utf8Encode [] = []"
| "utf8Encode (c # cs) =
     (if isHighSurrogate c then
        (case cs of
           [] \<Rightarrow> utf8 0xFFFD
         | d # ds \<Rightarrow>
             if isLowSurrogate d then utf8 (surrogatePair c d) @ utf8Encode ds
             else utf8 0xFFFD @ utf8Encode cs)
      else if isLowSurrogate c then utf8 0xFFFD @ utf8Encode cs
      else utf8 (unat c) @ utf8Encode cs)"

definition formByte :: "nat \<Rightarrow> jsstring" where
  "formByte b =
     (if b = 0x20 then [of_nat 43]
      else if isAlphaNum (of_nat b) \<or> b \<in> {0x2A, 0x2D, 0x2E, 0x5F} then [of_nat b]
      else percentByte b)"

definition formEncode :: "jsstring \<Rightarrow> jsstring" where
  "formEncode s = concat (map formByte (utf8Encode s))"

type_synonym urlSearchParams = "(jsstring \<times> jsstring) list"

definition new_URLSearchParams :: "(jsstring \<times> jsstring) list \<Rightarrow> urlSearchParams" where
  "new_URLSearchParams init = map (\<lambda>(name, v). (toUSVString name, toUSVString v)) init"

definition params_get :: "urlSearchParams \<Rightarrow> jsstring \<Rightarrow> jsstring option" where
  "params_get params name = map_of params (toUSVString name)"

fun params_replace :: "jsstring \<Rightarrow> jsstring \<Rightarrow> urlSearchParams \<Rightarrow> urlSearchParams" where
  "params_replace name v [] = [(name, v)]"
| "params_replace name v (p # ps) =
     (if fst p = name then (name, v) # filter (\<lambda>q. fst q \<noteq> name) ps
      else p # params_replace name v ps)"

definition params_set :: "urlSearchParams \<Rightarrow> jsstring \<Rightarrow> jsstring \<Rightarrow> urlSearchParams" where
  "params_set params name v = params_replace (toUSVString name) (toUSVString v) params"

definition params_toString :: "urlSearchParams \<Rightarrow> jsstring" where
  "params_toString params =
     join (js ''&'') (map (\<lambda>(name, v). formEncode name @ js ''='' @ formEncode v) params)"

text \<open>A template literal interpolates \<open>null\<close> as the text \<open>null\<close>.\<close>

definition interpolate :: "jsstring option \<Rightarrow> jsstring" where
  "interpolate v = (case v of None \<Rightarrow> js ''null'' | Some s \<Rightarrow> s)"

section \<open>The query model\<close>

text \<open>
  The form data the UI passes to the generator: \<open>searchTerms\<close> is the list of term groups,
  each with its field, its operator and its raw terms. The form-level field selection
  \<open>formData.searchField\<close> is \<open>searchField_form\<close> here, and a group's \<open>id\<close> is \<open>id_group\<close>.
\<close>

record termGroup =
  id_group :: jsstring
  searchField :: jsstring
  operator :: jsstring
  terms :: "jsstring list"

record formData =
  database :: jsstring
  searchTerms :: "termGroup list"
  startYear :: int
  endYear :: int
  searchField_form :: jsstring
  resultsPerPage :: int

section \<open>SearchURLGenerator\<close>

record searchURLGenerator =
  currentDatabase :: jsstring

definition new_SearchURLGenerator :: searchURLGenerator where
  "new_SearchURLGenerator = \<lparr>currentDatabase = js ''ieee''\<rparr>"

definition setDatabase :: "jsstring \<Rightarrow> searchURLGenerator \<Rightarrow> searchURLGenerator" where
  "setDatabase db g = g\<lparr>currentDatabase := db\<rparr>"

subsection \<open>IEEE Xplore\<close>

text \<open>
  \<open>buildIEEEQueryText\<close>, with its local values named: \<open>ieeeGroupTerms\<close> is \<open>terms\<close> of the
  callback (the group's clauses joined by its operator), \<open>ieeeTermGroups\<close> is
  \<open>termGroups\<close> and \<open>ieeeFullQuery\<close> is \<open>fullQuery\<close>, the expression before encoding.
\<close>

definition ieeeClause :: "termGroup \<Rightarrow> jsstring \<Rightarrow> jsstring" where
  "ieeeClause grp term_s =
     js ''(\"'' @ searchField grp @ js ''\":\"'' @ trim term_s @ js ''\")''"

definition ieeeGroupTerms :: "termGroup \<Rightarrow> jsstring" where
  "ieeeGroupTerms grp =
     join (js '' '' @ operator grp @ js '' '')
       (map (ieeeClause grp) (filter (\<lambda>term_s. trim term_s \<noteq> []) (terms grp)))"

definition ieeeTermGroups :: "termGroup list \<Rightarrow> jsstring list" where
  "ieeeTermGroups groups =
     filter (\<lambda>grp. grp \<noteq> [])
       (map (\<lambda>grp. if ieeeGroupTerms grp \<noteq> []
                      then js ''('' @ ieeeGroupTerms grp @ js '')'' else [])
          groups)"

definition ieeeFullQuery :: "termGroup list \<Rightarrow> jsstring" where
  "ieeeFullQuery groups = join (js '' AND '') (ieeeTermGroups groups)"

definition buildIEEEQueryText :: "termGroup list \<Rightarrow> error + jsstring" where
  "buildIEEEQueryText groups =
     (if length (ieeeTermGroups groups) = 0 then Inr []
      else encodeURIComponent (ieeeFullQuery groups))"

definition ieeeBaseURL :: jsstring where
  "ieeeBaseURL = js ''https://ieeexplore.ieee.org/search/searchresult.jsp''"

definition generateIEEEURL :: "formData \<Rightarrow> error + jsstring" where
  "generateIEEEURL fd =
     (case buildIEEEQueryText (searchTerms fd) of
        Inl e \<Rightarrow> Inl e
      | Inr queryText \<Rightarrow>
          let params = new_URLSearchParams
                [(js ''action'', js ''search''),
                 (js ''newsearch'', js ''true''),
                 (js ''matchBoolean'', js ''true''),
                 (js ''queryText'', queryText),
                 (js ''ranges'',
                    numberToString (startYear fd) @ js ''_'' @ numberToString (endYear fd)
                      @ js ''_Year'')]
          in Inr (ieeeBaseURL @ js ''?'' @ params_toString params))"

subsection \<open>Scopus\<close>

definition scopusClause :: "termGroup \<Rightarrow> jsstring \<Rightarrow> jsstring" where
  "scopusClause grp term_s = searchField grp @ js ''(\"'' @ trim term_s @ js ''\")''"

definition scopusGroupTerms :: "termGroup \<Rightarrow> jsstring" where
  "scopusGroupTerms grp =
     join (js '' '' @ operator grp @ js '' '')
       (map (scopusClause grp) (filter (\<lambda>term_s. trim term_s \<noteq> []) (terms grp)))"

definition scopusTermGroups :: "termGroup list \<Rightarrow> jsstring list" where
  "scopusTermGroups groups =
     filter (\<lambda>grp. grp \<noteq> [])
       (map (\<lambda>grp. if scopusGroupTerms grp \<noteq> []
                      then js ''('' @ scopusGroupTerms grp @ js '')'' else [])
          groups)"

definition scopusFullQuery :: "termGroup list \<Rightarrow> jsstring" where
  "scopusFullQuery groups = join (js '' AND '') (scopusTermGroups groups)"

definition buildScopusQuery :: "termGroup list \<Rightarrow> error + jsstring" where
  "buildScopusQuery groups =
     (if length (scopusTermGroups groups) = 0 then Inr []
      else encodeURIComponent (scopusFullQuery groups))"

definition scopusBaseURL :: jsstring where
  "scopusBaseURL = js ''https://www.scopus.com/results/results.uri''"

definition yearClause :: "formData \<Rightarrow> jsstring" where
  "yearClause fd =
     js ''AND PUBYEAR > '' @ numberToString (startYear fd) @ js '' AND PUBYEAR < ''
       @ numberToString (numberAdd (endYear fd) 1)"

definition generateScopusURL :: "formData \<Rightarrow> error + jsstring" where
  "generateScopusURL fd =
     (case buildScopusQuery (searchTerms fd) of
        Inl e \<Rightarrow> Inl e
      | Inr searchQuery \<Rightarrow>
          let params = new_URLSearchParams
                [(js ''sort'', js ''plf-f''),
                 (js ''src'', js ''s''),
                 (js ''sot'', js ''a''),
                 (js ''sdt'', js ''a''),
                 (js ''sl'', js ''211''),
                 (js ''s'', searchQuery),
                 (js ''origin'', js ''searchadvanced''),
                 (js ''editSaveSearch'', []),
                 (js ''limit'', numberToString (resultsPerPage fd))];
              currentS = params_get params (js ''s'')
          in (case encodeURIComponent (yearClause fd) of
                Inl e \<Rightarrow> Inl e
              | Inr encodedYear \<Rightarrow>
                  Inr (scopusBaseURL @ js ''?''
                       @ params_toString
                           (params_set params (js ''s'')
                              (interpolate currentS @ js '' '' @ encodedYear)))))"

subsection \<open>Dispatch\<close>

definition generateURL :: "searchURLGenerator \<Rightarrow> formData \<Rightarrow> error + jsstring" where
  "generateURL g fd =
     (if currentDatabase g = js ''ieee'' then generateIEEEURL fd
      else if currentDatabase g = js ''scopus'' then generateScopusURL fd
      else Inl (Error (js ''Unsupported database type'')))"

subsection \<open>Validation\<close>

record validationResult =
  isValid :: bool
  errors :: "jsstring list"
  warnings :: "jsstring list"

definition hasValidTerms :: "formData \<Rightarrow> bool" where
  "hasValidTerms fd =
     list_ex (\<lambda>grp. list_ex (\<lambda>term_s. trim term_s \<noteq> []) (terms grp)) (searchTerms fd)"

definition totalTerms :: "formData \<Rightarrow> nat" where
  "totalTerms fd =
     foldl (\<lambda>total grp. total + length (filter (\<lambda>term_s. trim term_s \<noteq> []) (terms grp)))
       0 (searchTerms fd)"

definition validateFormData :: "formData \<Rightarrow> validationResult" where
  "validateFormData fd =
     (let errors1 = (if \<not> hasValidTerms fd
                     then [js ''At least one search term is required''] else []);
          errors2 = (if startYear fd > endYear fd
                     then errors1 @ [js ''Start year must be less than or equal to end year'']
                     else errors1);
          warnings1 = (if startYear fd < 1900 \<or> endYear fd > 2030
                       then [js ''Year range should be between 1900 and 2030''] else []);
          warnings2 = (if totalTerms fd > 20
                       then warnings1
                            @ [js ''Large number of search terms may result in very long URLs'']
                       else warnings1)
      in \<lparr>isValid = (length errors2 = 0), errors = errors2, warnings = warnings2\<rparr>)"

subsection \<open>Field options\<close>

record fieldOption =
  option_value :: jsstring
  option_label :: jsstring

definition getFieldOptions :: "jsstring \<Rightarrow> fieldOption list" where
  "getFieldOptions db =
     (if db = js ''ieee'' then
        [\<lparr>option_value = js ''All Metadata'', option_label = js ''All Metadata''\<rparr>,
         \<lparr>option_value = js ''Title'', option_label = js ''Title''\<rparr>,
         \<lparr>option_value = js ''Abstract'', option_label = js ''Abstract''\<rparr>,
         \<lparr>option_value = js ''Authors'', option_label = js ''Authors''\<rparr>,
         \<lparr>option_value = js ''Keywords'', option_label = js ''Keywords''\<rparr>]
      else if db = js ''scopus'' then
        [\<lparr>option_value = js ''TITLE-ABS-KEY'', option_label = js ''Title, Abstract & Keywords''\<rparr>,
         \<lparr>option_value = js ''TITLE'', option_label = js ''Title''\<rparr>,
         \<lparr>option_value = js ''ABS'', option_label = js ''Abstract''\<rparr>,
         \<lparr>option_value = js ''AUTH'', option_label = js ''Authors''\<rparr>,
         \<lparr>option_value = js ''KEY'', option_label = js ''Keywords''\<rparr>]
      else [])"

section \<open>UIManager\<close>

text \<open>
  The state of the UI manager that the handlers read and write: the generator it was
  given (\<open>null\<close> until \<open>setSearchGenerator\<close>), the form data and the group counter. The
  DOM is not part of the state: \<open>updateURLPreview\<close> and the tab and option elements only
  write to it. The value a handler reads from a DOM element is an argument of the
  handler here (the clicked tab's database for \<open>handleDatabaseChange\<close>, the select's
  value for \<open>handleFieldChange\<close>).
\<close>

record uiManager =
  searchGenerator :: "searchURLGenerator option"
  formData_ui :: formData
  termGroupCounter :: nat

definition setSearchGenerator :: "searchURLGenerator \<Rightarrow> uiManager \<Rightarrow> uiManager" where
  "setSearchGenerator generator ui = ui\<lparr>searchGenerator := Some generator\<rparr>"

definition addTermGroup :: "uiManager \<Rightarrow> uiManager" where
  "addTermGroup ui =
     (let counter = termGroupCounter ui + 1;
          termGroup = \<lparr>id_group = js ''termGroup'' @ natToString counter,
                       searchField = searchField_form (formData_ui ui),
                       operator = js ''OR'',
                       terms = [[], []]\<rparr>
      in ui\<lparr>termGroupCounter := counter,
            formData_ui := (formData_ui ui)
              \<lparr>searchTerms := searchTerms (formData_ui ui) @ [termGroup]\<rparr>\<rparr>)"

definition initializeDefaultState :: "uiManager \<Rightarrow> uiManager" where
  "initializeDefaultState ui =
     (let ui1 = addTermGroup ui in
      case searchTerms (formData_ui ui1) of
        [] \<Rightarrow> ui1
      | firstGroup # rest \<Rightarrow>
          ui1\<lparr>formData_ui := (formData_ui ui1)
            \<lparr>searchTerms :=
               firstGroup\<lparr>terms := [js ''neural decoding'', js ''brain decoding''],
                          searchField := js ''All Metadata''\<rparr> # rest\<rparr>\<rparr>)"

definition new_UIManager :: uiManager where
  "new_UIManager =
     initializeDefaultState
       \<lparr>searchGenerator = None,
        formData_ui = \<lparr>database = js ''ieee'', searchTerms = [], startYear = 2020,
                       endYear = 2024, searchField_form = js ''All Metadata'',
                       resultsPerPage = 50\<rparr>,
        termGroupCounter = 0\<rparr>"

text \<open>\<open>AcademicSearchGenerator.init\<close>: a new generator, a new UI manager, and the two wired.\<close>

definition init :: uiManager where
  "init = setSearchGenerator new_SearchURLGenerator new_UIManager"

definition updateFieldOptions :: "jsstring \<Rightarrow> uiManager \<Rightarrow> uiManager" where
  "updateFieldOptions db ui =
     (case searchGenerator ui of
        None \<Rightarrow> ui
      | Some generator \<Rightarrow>
          foldl (\<lambda>u opt.
                  if option_value opt = js ''All Metadata''
                     \<or> option_value opt = js ''TITLE-ABS-KEY''
                  then u\<lparr>formData_ui := (formData_ui u)\<lparr>searchField_form := option_value opt\<rparr>\<rparr>
                  else u)
            ui (getFieldOptions db))"

definition handleDatabaseChange :: "jsstring \<Rightarrow> uiManager \<Rightarrow> uiManager" where
  "handleDatabaseChange db ui =
     (let ui1 = ui\<lparr>formData_ui := (formData_ui ui)\<lparr>database := db\<rparr>\<rparr>;
          ui2 = (case searchGenerator ui1 of
                   None \<Rightarrow> ui1
                 | Some generator \<Rightarrow> ui1\<lparr>searchGenerator := Some (setDatabase db generator)\<rparr>)
      in updateFieldOptions db ui2)"

definition handleFieldChange :: "jsstring \<Rightarrow> uiManager \<Rightarrow> uiManager" where
  "handleFieldChange selected ui =
     (let fd = (formData_ui ui)\<lparr>searchField_form := selected\<rparr>
      in ui\<lparr>formData_ui :=
              fd\<lparr>searchTerms :=
                   map (\<lambda>grp. grp\<lparr>searchField := searchField_form fd\<rparr>) (searchTerms fd)\<rparr>\<rparr>)"

section \<open>The scenarios of the specification\<close>

definition scenarioGroup :: termGroup where
  "scenarioGroup =
     \<lparr>id_group = js ''termGroup1'', searchField = js ''All Metadata'', operator = js ''OR'',
      terms = [js ''neural decoding'', js ''brain decoding'']\<rparr>"

definition scenario1 :: formData where
  "scenario1 =
     \<lparr>database = js ''ieee'', searchTerms = [scenarioGroup], startYear = 2019,
      endYear = 2026, searchField_form = js ''All Metadata'', resultsPerPage = 50\<rparr>"

definition scenario3 :: formData where
  "scenario3 =
     \<lparr>database = js ''ieee'',
      searchTerms = [scenarioGroup\<lparr>terms := [[], js ''  '']\<rparr>],
      startYear = 2020, endYear = 2024, searchField_form = js ''All Metadata'',
      resultsPerPage = 50\<rparr>"

definition scenario4 :: formData where
  "scenario4 = scenario1\<lparr>startYear := 2024, endYear := 2020\<rparr>"

definition scenario2 :: formData where
  "scenario2 =
     \<lparr>database = js ''scopus'',
      searchTerms = [scenarioGroup\<lparr>searchField := js ''TITLE-ABS-KEY''\<rparr>],
      startYear = 2019, endYear = 2026, searchField_form = js ''TITLE-ABS-KEY'',
      resultsPerPage = 50\<rparr>"

section \<open>Predicates and reference definitions used in the statements\<close>

text \<open>
  \<open>isWellFormed\<close> is \<open>String.prototype.isWellFormed\<close>: no unpaired surrogate. Text typed
  into the form is well formed; a model is well formed when all its strings are.
\<close>

fun isWellFormed :: "jsstring \<Rightarrow> bool" where
  "isWellFormed [] = True"
| "isWellFormed (c # cs) =
     (if isHighSurrogate c then
        (case cs of [] \<Rightarrow> False | d # ds \<Rightarrow> isLowSurrogate d \<and> isWellFormed ds)
      else \<not> isLowSurrogate c \<and> isWellFormed cs)"

definition wellFormedGroup :: "termGroup \<Rightarrow> bool" where
  "wellFormedGroup grp =
     (isWellFormed (searchField grp) \<and> isWellFormed (operator grp)
      \<and> list_all isWellFormed (terms grp))"

definition wellFormedModel :: "formData \<Rightarrow> bool" where
  "wellFormedModel fd = list_all wellFormedGroup (searchTerms fd)"

text \<open>The years and the page size of a model are safe integers.\<close>

definition safeNumbers :: "formData \<Rightarrow> bool" where
  "safeNumbers fd =
     (isSafeInteger (startYear fd) \<and> isSafeInteger (endYear fd)
      \<and> isSafeInteger (resultsPerPage fd))"

definition isAscii :: "jsstring \<Rightarrow> bool" where
  "isAscii s = list_all (\<lambda>c. unat c < 0x80) s"

text \<open>
  The characters of a parameter value inside a serialized query string: the bytes the
  form encoding keeps, the percent sign of an escape and the plus of a space. The
  separators \<open>=\<close> and \<open>&\<close>, quotes, parentheses and spaces are not among them.
\<close>

definition valueChar :: "jschar \<Rightarrow> bool" where
  "valueChar c = (isAlphaNum c \<or> c \<in> set (js ''*-._%+''))"

text \<open>A term is blank when nothing is left of it after trimming.\<close>

definition isBlank :: "jsstring \<Rightarrow> bool" where
  "isBlank term_s = (trim term_s = [])"

subsection \<open>The clause-building algorithm in the words of the specification\<close>

text \<open>
  For each group: trim the terms and drop the blank ones; if none remains the group is
  omitted; otherwise each remaining term becomes one atomic clause of the target, the
  clauses are joined with the group's operator between spaces, and the result is put
  in parentheses. The clauses of the groups that remain are joined, in order, with
  \<open>AND\<close> between spaces.
\<close>

definition spec_remainingTerms :: "termGroup \<Rightarrow> jsstring list" where
  "spec_remainingTerms grp = filter (\<lambda>t. t \<noteq> []) (map trim (terms grp))"

definition spec_groupClause ::
  "(jsstring \<Rightarrow> jsstring \<Rightarrow> jsstring) \<Rightarrow> termGroup \<Rightarrow> jsstring option" where
  "spec_groupClause atom grp =
     (if spec_remainingTerms grp = [] then None
      else Some (js ''('' @ join (js '' '' @ operator grp @ js '' '')
                              (map (atom (searchField grp)) (spec_remainingTerms grp))
                 @ js '')''))"

definition spec_fragment ::
  "(jsstring \<Rightarrow> jsstring \<Rightarrow> jsstring) \<Rightarrow> termGroup list \<Rightarrow> jsstring" where
  "spec_fragment atom groups = join (js '' AND '') (List.map_filter (spec_groupClause atom) groups)"

definition spec_ieeeAtom :: "jsstring \<Rightarrow> jsstring \<Rightarrow> jsstring" where
  "spec_ieeeAtom field t = js ''(\"'' @ field @ js ''\":\"'' @ t @ js ''\")''"

definition spec_scopusAtom :: "jsstring \<Rightarrow> jsstring \<Rightarrow> jsstring" where
  "spec_scopusAtom field t = field @ js ''(\"'' @ t @ js ''\")''"

section \<open>Lemmas about the built-ins\<close>

lemma js_append: "js (a @ b) = js a @ js b"
  by (simp add: js_def)

lemma uriUnescaped_ascii: "uriUnescaped c \<Longrightarrow> unat c < 0x80"
  by (auto simp: uriUnescaped_def isAlphaNum_def js_def)

lemma unat_of_nat16: "n < 65536 \<Longrightarrow> unat (of_nat n :: jschar) = n"
  by (simp add: unat_of_nat)

lemma unat_jschar_less: "unat (c :: jschar) < 65536"
  using unsigned_less [of c, where 'a = nat] by simp

lemma hexDigit_unat: "d < 16 \<Longrightarrow> unat (hexDigit d) = (if d < 10 then 48 + d else 55 + d)"
  unfolding hexDigit_def using unat_of_nat16 [of "48 + d"] unat_of_nat16 [of "55 + d"]
  by (simp del: of_nat_add)

lemma hexDigit_ascii: "d < 16 \<Longrightarrow> unat (hexDigit d) < 0x80"
  by (simp add: hexDigit_unat)

lemma utf8_byte: "cp < 0x110000 \<Longrightarrow> b \<in> set (utf8 cp) \<Longrightarrow> b < 256"
  by (auto simp: utf8_def split: if_splits)

lemma percentBytes_ascii: "\<forall>b\<in>set bs. b < 256 \<Longrightarrow> isAscii (percentBytes bs)"
  by (induction bs) (auto simp: percentBytes_def percentByte_def isAscii_def hexDigit_ascii)

lemma surrogatePair_bound:
  "isHighSurrogate h \<Longrightarrow> isLowSurrogate l \<Longrightarrow> surrogatePair h l < 0x110000"
  unfolding surrogatePair_def isHighSurrogate_def isLowSurrogate_def by linarith

lemma unat_bound: "unat (c :: jschar) < 0x110000"
  using unat_jschar_less [of c] by simp

lemma isAscii_append [simp]: "isAscii (a @ b) = (isAscii a \<and> isAscii b)"
  by (simp add: isAscii_def)

lemma isAscii_Nil [simp]: "isAscii []"
  by (simp add: isAscii_def)

lemma encodeURIComponent_ascii: "encodeURIComponent s = Inr q \<Longrightarrow> isAscii q"
proof (induction s arbitrary: q rule: encodeURIComponent.induct)
  case 1
  then show ?case by simp
next
  case (2 c cs)
  show ?case
  proof (cases "uriUnescaped c")
    case True
    with "2.prems" obtain q' where q': "encodeURIComponent cs = Inr q'" "q = [c] @ q'"
      by (cases "encodeURIComponent cs") auto
    with "2.IH"(1) [OF True] True show ?thesis
      by (simp add: isAscii_def uriUnescaped_ascii)
  next
    case False
    note nu = this
    show ?thesis
    proof (cases "isHighSurrogate c")
      case True
      with nu "2.prems" obtain d ds where cs: "cs = d # ds" and low: "isLowSurrogate d"
        by (cases cs) (auto split: if_splits)
      with nu True "2.prems" obtain q' where q': "encodeURIComponent ds = Inr q'"
        "q = percentBytes (utf8 (surrogatePair c d)) @ q'"
        by (cases "encodeURIComponent ds") auto
      have "isAscii q'" using "2.IH"(2) [OF nu True cs low q'(1)] .
      moreover have "isAscii (percentBytes (utf8 (surrogatePair c d)))"
        by (rule percentBytes_ascii) (auto dest: utf8_byte [OF surrogatePair_bound [OF True low]])
      ultimately show ?thesis using q' by simp
    next
      case False
      with nu "2.prems" have nl: "\<not> isLowSurrogate c" by (auto split: if_splits)
      with nu False "2.prems" obtain q' where q': "encodeURIComponent cs = Inr q'"
        "q = percentBytes (utf8 (unat c)) @ q'"
        by (cases "encodeURIComponent cs") auto
      have "isAscii q'" using "2.IH"(3) [OF nu False nl q'(1)] .
      moreover have "isAscii (percentBytes (utf8 (unat c)))"
        by (rule percentBytes_ascii) (auto dest: utf8_byte [OF unat_bound])
      ultimately show ?thesis using q' by simp
    qed
  qed
qed


lemma uriUnescaped_not_surrogate:
  "uriUnescaped c \<Longrightarrow> \<not> isHighSurrogate c \<and> \<not> isLowSurrogate c"
  using uriUnescaped_ascii [of c] by (auto simp: isHighSurrogate_def isLowSurrogate_def)

lemma encodeURIComponent_append:
  "encodeURIComponent a = Inr a' \<Longrightarrow>
   encodeURIComponent (a @ b) = map_sum id ((@) a') (encodeURIComponent b)"
proof (induction a arbitrary: a' rule: encodeURIComponent.induct)
  case 1
  then show ?case by (cases "encodeURIComponent b") auto
next
  case (2 c cs)
  show ?case
  proof (cases "uriUnescaped c")
    case True
    with "2.prems" obtain q' where q': "encodeURIComponent cs = Inr q'" "a' = [c] @ q'"
      by (cases "encodeURIComponent cs") auto
    show ?thesis using "2.IH"(1) [OF True q'(1)] True q'
      by (cases "encodeURIComponent b") auto
  next
    case False
    note nu = this
    show ?thesis
    proof (cases "isHighSurrogate c")
      case True
      with nu "2.prems" obtain d ds where cs: "cs = d # ds" and low: "isLowSurrogate d"
        by (cases cs) (auto split: if_splits)
      with nu True "2.prems" obtain q' where q': "encodeURIComponent ds = Inr q'"
        "a' = percentBytes (utf8 (surrogatePair c d)) @ q'"
        by (cases "encodeURIComponent ds") auto
      show ?thesis using "2.IH"(2) [OF nu True cs low q'(1)] nu True cs low q'
        by (cases "encodeURIComponent b") auto
    next
      case False
      with nu "2.prems" have nl: "\<not> isLowSurrogate c" by (auto split: if_splits)
      with nu False "2.prems" obtain q' where q': "encodeURIComponent cs = Inr q'"
        "a' = percentBytes (utf8 (unat c)) @ q'"
        by (cases "encodeURIComponent cs") auto
      show ?thesis using "2.IH"(3) [OF nu False nl q'(1)] nu False nl q'
        by (cases "encodeURIComponent b") auto
    qed
  qed
qed

lemma encodeURIComponent_unescaped:
  "list_all uriUnescaped s \<Longrightarrow> encodeURIComponent s = Inr s"
  by (induction s) auto

lemma encodeURIComponent_wellFormed:
  "isWellFormed s \<Longrightarrow> \<exists>q. encodeURIComponent s = Inr q"
proof (induction s rule: isWellFormed.induct)
  case 1
  then show ?case by simp
next
  case (2 c cs)
  show ?case
  proof (cases "isHighSurrogate c")
    case True
    with "2.prems" obtain d ds where cs: "cs = d # ds" and low: "isLowSurrogate d"
      and wf: "isWellFormed ds"
      by (cases cs) auto
    from "2.IH"(1) [OF True cs wf] obtain q where "encodeURIComponent ds = Inr q" ..
    moreover have "\<not> uriUnescaped c" using True uriUnescaped_not_surrogate by blast
    ultimately show ?thesis using True cs low by simp
  next
    case False
    with "2.prems" have nl: "\<not> isLowSurrogate c" and wf: "isWellFormed cs" by auto
    from "2.IH"(2) [OF False wf] obtain q where "encodeURIComponent cs = Inr q" ..
    with False nl show ?thesis by simp
  qed
qed

lemma encodeURIComponent_error:
  "encodeURIComponent s = Inl e \<Longrightarrow> e = URIError \<and> \<not> isWellFormed s"
proof (induction s rule: encodeURIComponent.induct)
  case 1
  then show ?case by simp
next
  case (2 c cs)
  note surr = uriUnescaped_not_surrogate [of c]
  show ?case
  proof (cases "uriUnescaped c")
    case True
    with "2.prems" have "encodeURIComponent cs = Inl e"
      by (cases "encodeURIComponent cs") auto
    from "2.IH"(1) [OF True this] surr [OF True] show ?thesis by simp
  next
    case False
    note nu = this
    show ?thesis
    proof (cases "isHighSurrogate c")
      case True
      show ?thesis
      proof (cases cs)
        case Nil
        with nu True "2.prems" show ?thesis by auto
      next
        case (Cons d ds)
        show ?thesis
        proof (cases "isLowSurrogate d")
          case low: True
          with nu True Cons "2.prems" have "encodeURIComponent ds = Inl e"
            by (cases "encodeURIComponent ds") auto
          from "2.IH"(2) [OF nu True Cons low this] True Cons low show ?thesis by simp
        next
          case False
          with nu True Cons "2.prems" show ?thesis by auto
        qed
      qed
    next
      case False
      show ?thesis
      proof (cases "isLowSurrogate c")
        case True
        with nu False "2.prems" show ?thesis by auto
      next
        case nl: False
        with nu False "2.prems" have "encodeURIComponent cs = Inl e"
          by (cases "encodeURIComponent cs") auto
        from "2.IH"(3) [OF nu False nl this] False nl show ?thesis by simp
      qed
    qed
  qed
qed

lemma isWellFormed_append:
  "isWellFormed a \<Longrightarrow> isWellFormed b \<Longrightarrow> isWellFormed (a @ b)"
proof (induction a rule: isWellFormed.induct)
  case 1
  then show ?case by simp
next
  case (2 c cs)
  show ?case
  proof (cases "isHighSurrogate c")
    case True
    with "2.prems" obtain d ds where cs: "cs = d # ds" and low: "isLowSurrogate d"
      and wf: "isWellFormed ds"
      by (cases cs) auto
    from "2.IH"(1) [OF True cs wf "2.prems"(2)] True cs low show ?thesis by simp
  next
    case False
    with "2.prems" have nl: "\<not> isLowSurrogate c" and wf: "isWellFormed cs" by auto
    from "2.IH"(2) [OF False wf "2.prems"(2)] False nl show ?thesis by simp
  qed
qed

lemma isWellFormed_prefix:
  "isWellFormed (a @ b) \<Longrightarrow> list_all (\<lambda>c. \<not> isHighSurrogate c \<and> \<not> isLowSurrogate c) b
   \<Longrightarrow> isWellFormed a"
proof (induction a rule: isWellFormed.induct)
  case 1
  then show ?case by simp
next
  case (2 c cs)
  show ?case
  proof (cases "isHighSurrogate c")
    case True
    show ?thesis
    proof (cases cs)
      case Nil
      with True "2.prems" show ?thesis by (cases b) auto
    next
      case (Cons d ds)
      with True "2.prems" have low: "isLowSurrogate d" and wf: "isWellFormed (ds @ b)"
        by auto
      from "2.IH"(1) [OF True Cons wf "2.prems"(2)] True Cons low show ?thesis by simp
    qed
  next
    case False
    with "2.prems" have nl: "\<not> isLowSurrogate c" and wf: "isWellFormed (cs @ b)" by auto
    from "2.IH"(2) [OF False wf "2.prems"(2)] False nl show ?thesis by simp
  qed
qed

lemma isWhiteSpace_not_surrogate:
  "isWhiteSpace c \<Longrightarrow> \<not> isHighSurrogate c \<and> \<not> isLowSurrogate c"
  by (auto simp: isWhiteSpace_def isHighSurrogate_def isLowSurrogate_def)

lemma isWellFormed_dropWhile:
  "isWellFormed s \<Longrightarrow> isWellFormed (dropWhile isWhiteSpace s)"
proof (induction s)
  case Nil
  then show ?case by simp
next
  case (Cons c cs)
  show ?case
  proof (cases "isWhiteSpace c")
    case True
    with Cons.prems isWhiteSpace_not_surrogate [OF True] have "isWellFormed cs" by simp
    with Cons.IH True show ?thesis by simp
  next
    case False
    with Cons.prems show ?thesis by simp
  qed
qed

lemma isWellFormed_trim: "isWellFormed s \<Longrightarrow> isWellFormed (trim s)"
proof -
  assume wf: "isWellFormed s"
  let ?t = "dropWhile isWhiteSpace s"
  have "?t = rev (dropWhile isWhiteSpace (rev ?t)) @ rev (takeWhile isWhiteSpace (rev ?t))"
    by (metis rev_append rev_rev_ident takeWhile_dropWhile_id)
  moreover have "isWellFormed ?t" using wf by (rule isWellFormed_dropWhile)
  moreover have "list_all (\<lambda>c. \<not> isHighSurrogate c \<and> \<not> isLowSurrogate c)
                   (rev (takeWhile isWhiteSpace (rev ?t)))"
    by (auto simp: list_all_iff dest!: set_takeWhileD isWhiteSpace_not_surrogate)
  ultimately have "isWellFormed (rev (dropWhile isWhiteSpace (rev ?t)))"
    using isWellFormed_prefix by metis
  then show ?thesis by (simp add: trim_def)
qed

lemma isWellFormed_ascii: "isAscii s \<Longrightarrow> isWellFormed s"
  by (induction s) (auto simp: isAscii_def isHighSurrogate_def isLowSurrogate_def)

lemma isWellFormed_join:
  "isWellFormed sep \<Longrightarrow> list_all isWellFormed xs \<Longrightarrow> isWellFormed (join sep xs)"
  by (induction sep xs rule: join.induct) (auto intro: isWellFormed_append)

lemma toUSVString_ascii_append: "isAscii a \<Longrightarrow> toUSVString (a @ b) = a @ toUSVString b"
  by (induction a) (auto simp: isAscii_def isHighSurrogate_def isLowSurrogate_def)

lemma toUSVString_ascii: "isAscii a \<Longrightarrow> toUSVString a = a"
  using toUSVString_ascii_append [of a "[]"] by simp

lemma utf8Encode_ascii_append: "isAscii a \<Longrightarrow> utf8Encode (a @ b) = map unat a @ utf8Encode b"
  by (induction a) (auto simp: isAscii_def isHighSurrogate_def isLowSurrogate_def utf8_def)

lemma formEncode_append: "isAscii a \<Longrightarrow> formEncode (a @ b) = formEncode a @ formEncode b"
  using utf8Encode_ascii_append [of a b] utf8Encode_ascii_append [of a "[]"]
  by (simp add: formEncode_def)

lemma digitChar_unat: "d < 10 \<Longrightarrow> unat (digitChar d) = 48 + d"
  unfolding digitChar_def using unat_of_nat16 [of "48 + d"] by (simp del: of_nat_add)

lemma natToString_digits: "list_all (\<lambda>c. 48 \<le> unat c \<and> unat c \<le> 57) (natToString n)"
proof (induction n rule: natToString.induct)
  case (1 n)
  show ?case
  proof (cases "n < 10")
    case True
    then show ?thesis by (subst natToString.simps) (simp add: digitChar_unat)
  next
    case False
    have "n mod 10 < 10" by simp
    with "1.IH" [OF False] False show ?thesis
      by (subst natToString.simps) (simp add: digitChar_unat)
  qed
qed

lemma isSafeInteger_exact: "isSafeInteger i \<Longrightarrow> isExactInteger i"
  by (simp add: isSafeInteger_def isExactInteger_def)

lemma isSafeInteger_succ_exact: "isSafeInteger i \<Longrightarrow> isExactInteger (i + 1)"
  by (simp add: isSafeInteger_def isExactInteger_def)

lemma numberAdd_one: "isSafeInteger i \<Longrightarrow> numberAdd i 1 = i + 1"
  by (simp add: numberAdd_def isSafeInteger_def isExactInteger_def)

lemma numberToString_chars:
  "isExactInteger i \<Longrightarrow>
   list_all (\<lambda>c. (48 \<le> unat c \<and> unat c \<le> 57) \<or> unat c = 45) (numberToString i)"
  using natToString_digits [of "nat i"] natToString_digits [of "nat (- i)"]
  by (auto simp: numberToString_def list_all_iff)

lemma numberToString_ascii: "isExactInteger i \<Longrightarrow> isAscii (numberToString i)"
  using numberToString_chars [of i] by (auto simp: isAscii_def list_all_iff)

lemma of_nat_unat16: "(of_nat (unat c) :: jschar) = c"
  by simp

lemma formEncode_kept:
  "list_all (\<lambda>c. (48 \<le> unat c \<and> unat c \<le> 57) \<or> unat c = 45) s \<Longrightarrow> formEncode s = s"
proof (induction s)
  case Nil
  then show ?case by (simp add: formEncode_def)
next
  case (Cons c cs)
  then have c: "(48 \<le> unat c \<and> unat c \<le> 57) \<or> unat c = 45" and IH: "formEncode cs = cs"
    by simp_all
  have "isAscii [c]" using c by (auto simp: isAscii_def)
  then have "formEncode ([c] @ cs) = formEncode [c] @ formEncode cs"
    by (rule formEncode_append)
  moreover have "formEncode [c] = [c]"
  proof -
    have ns: "\<not> isHighSurrogate c" "\<not> isLowSurrogate c"
      using c by (auto simp: isHighSurrogate_def isLowSurrogate_def)
    have lt: "unat c < 128" "unat c \<noteq> 32" using c by auto
    have u: "utf8Encode [c] = [unat c]" using ns lt by (simp add: utf8_def)
    have k: "isAlphaNum c \<or> unat c \<in> {0x2A, 0x2D, 0x2E, 0x5F}"
      using c by (auto simp: isAlphaNum_def)
    have "formByte (unat c) = [c]"
      unfolding formByte_def of_nat_unat16 using lt(2) k by simp
    with u show ?thesis by (simp add: formEncode_def)
  qed
  ultimately show ?case using IH by simp
qed

lemma formEncode_numberToString:
  "isExactInteger i \<Longrightarrow> formEncode (numberToString i) = numberToString i"
  by (rule formEncode_kept) (rule numberToString_chars)

lemma encodeURIComponent_numberToString:
  assumes "isExactInteger i"
  shows "encodeURIComponent (numberToString i) = Inr (numberToString i)"
proof (rule encodeURIComponent_unescaped)
  have "uriUnescaped c" if "(48 \<le> unat c \<and> unat c \<le> 57) \<or> unat c = 45" for c
  proof -
    from that consider "48 \<le> unat c \<and> unat c \<le> 57" | "unat c = 45" by blast
    then show ?thesis
    proof cases
      case 1
      then show ?thesis by (simp add: uriUnescaped_def isAlphaNum_def)
    next
      case 2
      then have "c = 45" by (metis of_nat_unat16 of_nat_numeral)
      then show ?thesis by (simp add: uriUnescaped_def js_def)
    qed
  qed
  with numberToString_chars [OF assms] show "list_all uriUnescaped (numberToString i)"
    by (auto simp: list_all_iff)
qed

section \<open>The shape of the generated URLs\<close>

lemma formEncode_keptChars:
  "list_all (\<lambda>c. isAlphaNum c \<or> unat c \<in> {0x2A, 0x2D, 0x2E, 0x5F}) s \<Longrightarrow> formEncode s = s"
proof (induction s)
  case Nil
  then show ?case by (simp add: formEncode_def)
next
  case (Cons c cs)
  then have k: "isAlphaNum c \<or> unat c \<in> {0x2A, 0x2D, 0x2E, 0x5F}" and IH: "formEncode cs = cs"
    by simp_all
  have lt: "unat c < 128" "unat c \<noteq> 32" using k by (auto simp: isAlphaNum_def)
  have ns: "\<not> isHighSurrogate c" "\<not> isLowSurrogate c"
    using lt by (auto simp: isHighSurrogate_def isLowSurrogate_def)
  have "isAscii [c]" using lt by (simp add: isAscii_def)
  then have "formEncode ([c] @ cs) = formEncode [c] @ formEncode cs"
    by (rule formEncode_append)
  moreover have "formEncode [c] = [c]"
  proof -
    have u: "utf8Encode [c] = [unat c]" using ns lt by (simp add: utf8_def)
    have "formByte (unat c) = [c]"
      unfolding formByte_def of_nat_unat16 using lt(2) k by simp
    with u show ?thesis by (simp add: formEncode_def)
  qed
  ultimately show ?case using IH by simp
qed

lemma keptChars_ascii:
  "list_all (\<lambda>c. isAlphaNum c \<or> unat c \<in> {0x2A, 0x2D, 0x2E, 0x5F}) s \<Longrightarrow> isAscii s"
  by (auto simp: isAscii_def list_all_iff isAlphaNum_def)

lemma toUSVString_keptChars:
  "list_all (\<lambda>c. isAlphaNum c \<or> unat c \<in> {0x2A, 0x2D, 0x2E, 0x5F}) s \<Longrightarrow> toUSVString s = s"
  by (rule toUSVString_ascii) (rule keptChars_ascii)

lemma numberToString_keptChars:
  "isExactInteger i \<Longrightarrow>
   list_all (\<lambda>c. isAlphaNum c \<or> unat c \<in> {0x2A, 0x2D, 0x2E, 0x5F}) (numberToString i)"
  using numberToString_chars [of i] by (auto simp: list_all_iff isAlphaNum_def)

lemma buildIEEEQueryText_encodes:
  "buildIEEEQueryText groups = encodeURIComponent (ieeeFullQuery groups)"
  by (simp add: buildIEEEQueryText_def ieeeFullQuery_def)

lemma buildScopusQuery_encodes:
  "buildScopusQuery groups = encodeURIComponent (scopusFullQuery groups)"
  by (simp add: buildScopusQuery_def scopusFullQuery_def)

lemma ieee_params_toString:
  assumes q: "isAscii q" and a: "isExactInteger a" and b: "isExactInteger b"
  shows "params_toString (new_URLSearchParams
           [(js ''action'', js ''search''),
            (js ''newsearch'', js ''true''),
            (js ''matchBoolean'', js ''true''),
            (js ''queryText'', q),
            (js ''ranges'', numberToString a @ js ''_'' @ numberToString b @ js ''_Year'')])
         = js ''action=search&newsearch=true&matchBoolean=true&queryText='' @ formEncode q
           @ js ''&ranges='' @ numberToString a @ js ''_'' @ numberToString b @ js ''_Year''"
proof -
  let ?kept = "list_all (\<lambda>c. isAlphaNum c \<or> unat c \<in> {0x2A, 0x2D, 0x2E, 0x5F})"
  have lits: "?kept (js ''action'')" "?kept (js ''search'')" "?kept (js ''newsearch'')"
    "?kept (js ''true'')" "?kept (js ''matchBoolean'')" "?kept (js ''queryText'')"
    "?kept (js ''ranges'')"
    by (simp_all add: js_def isAlphaNum_def)
  have r: "?kept (numberToString a @ js ''_'' @ numberToString b @ js ''_Year'')"
    using numberToString_keptChars [OF a] numberToString_keptChars [OF b]
    by (simp add: js_def isAlphaNum_def)
  note usv = lits [THEN toUSVString_keptChars] r [THEN toUSVString_keptChars]
    toUSVString_ascii [OF q]
  note enc = lits [THEN formEncode_keptChars] r [THEN formEncode_keptChars]
  have "params_toString (new_URLSearchParams
           [(js ''action'', js ''search''),
            (js ''newsearch'', js ''true''),
            (js ''matchBoolean'', js ''true''),
            (js ''queryText'', q),
            (js ''ranges'', numberToString a @ js ''_'' @ numberToString b @ js ''_Year'')])
        = js ''action'' @ js ''='' @ js ''search'' @ js ''&'' @ js ''newsearch'' @ js ''=''
          @ js ''true'' @ js ''&'' @ js ''matchBoolean'' @ js ''='' @ js ''true'' @ js ''&''
          @ js ''queryText'' @ js ''='' @ formEncode q @ js ''&'' @ js ''ranges'' @ js ''=''
          @ numberToString a @ js ''_'' @ numberToString b @ js ''_Year''"
    unfolding new_URLSearchParams_def params_toString_def
    by (simp add: usv enc)
  then show ?thesis by (simp add: js_def)
qed

lemma generateIEEEURL_shape:
  assumes s: "isExactInteger (startYear fd)" and e: "isExactInteger (endYear fd)"
  shows "generateIEEEURL fd =
     (case encodeURIComponent (ieeeFullQuery (searchTerms fd)) of
        Inl e \<Rightarrow> Inl e
      | Inr q \<Rightarrow>
          Inr (js ''https://ieeexplore.ieee.org/search/searchresult.jsp?action=search&newsearch=true&matchBoolean=true&queryText=''
               @ formEncode q @ js ''&ranges='' @ numberToString (startYear fd) @ js ''_''
               @ numberToString (endYear fd) @ js ''_Year''))"
proof (cases "encodeURIComponent (ieeeFullQuery (searchTerms fd))")
  case (Inl e)
  then show ?thesis by (simp add: generateIEEEURL_def buildIEEEQueryText_encodes)
next
  case (Inr q)
  then have "isAscii q" by (rule encodeURIComponent_ascii)
  from ieee_params_toString [OF this s e] Inr show ?thesis
    by (simp add: generateIEEEURL_def buildIEEEQueryText_encodes ieeeBaseURL_def js_def)
qed

lemmas enc_defs = uriUnescaped_def isAlphaNum_def isHighSurrogate_def isLowSurrogate_def
  percentBytes_def percentByte_def hexDigit_def utf8_def

lemma yearClause_safe:
  "isSafeInteger (endYear fd) \<Longrightarrow>
   yearClause fd =
     js ''AND PUBYEAR > '' @ numberToString (startYear fd) @ js '' AND PUBYEAR < ''
       @ numberToString (endYear fd + 1)"
  by (simp add: yearClause_def numberAdd_one)

lemma encodeURIComponent_yearClause:
  assumes s: "isExactInteger (startYear fd)" and e: "isSafeInteger (endYear fd)"
  shows "encodeURIComponent (yearClause fd) =
     Inr (js ''AND%20PUBYEAR%20%3E%20'' @ numberToString (startYear fd)
          @ js ''%20AND%20PUBYEAR%20%3C%20'' @ numberToString (endYear fd + 1))"
proof -
  have a: "encodeURIComponent (js ''AND PUBYEAR > '') = Inr (js ''AND%20PUBYEAR%20%3E%20'')"
    by (simp add: js_def enc_defs)
  have b: "encodeURIComponent (js '' AND PUBYEAR < '') = Inr (js ''%20AND%20PUBYEAR%20%3C%20'')"
    by (simp add: js_def enc_defs)
  note n = encodeURIComponent_numberToString [OF s]
  note n1 = encodeURIComponent_numberToString [OF isSafeInteger_succ_exact [OF e]]
  have "encodeURIComponent (js '' AND PUBYEAR < '' @ numberToString (endYear fd + 1))
        = Inr (js ''%20AND%20PUBYEAR%20%3C%20'' @ numberToString (endYear fd + 1))"
    by (simp add: encodeURIComponent_append [OF b] n1)
  then have "encodeURIComponent (numberToString (startYear fd) @ js '' AND PUBYEAR < ''
               @ numberToString (endYear fd + 1))
        = Inr (numberToString (startYear fd) @ js ''%20AND%20PUBYEAR%20%3C%20''
               @ numberToString (endYear fd + 1))"
    by (simp add: encodeURIComponent_append [OF n])
  then show ?thesis
    unfolding yearClause_safe [OF e] by (simp add: encodeURIComponent_append [OF a])
qed

lemma scopus_params_toString:
  assumes q: "isAscii q" and y: "isAscii y" and l: "isExactInteger l"
  shows "params_toString
           (params_set
              (new_URLSearchParams
                 [(js ''sort'', js ''plf-f''), (js ''src'', js ''s''), (js ''sot'', js ''a''),
                  (js ''sdt'', js ''a''), (js ''sl'', js ''211''), (js ''s'', q),
                  (js ''origin'', js ''searchadvanced''), (js ''editSaveSearch'', []),
                  (js ''limit'', numberToString l)])
              (js ''s'')
              (interpolate
                 (params_get
                    (new_URLSearchParams
                       [(js ''sort'', js ''plf-f''), (js ''src'', js ''s''), (js ''sot'', js ''a''),
                        (js ''sdt'', js ''a''), (js ''sl'', js ''211''), (js ''s'', q),
                        (js ''origin'', js ''searchadvanced''), (js ''editSaveSearch'', []),
                        (js ''limit'', numberToString l)])
                    (js ''s''))
               @ js '' '' @ y))
         = js ''sort=plf-f&src=s&sot=a&sdt=a&sl=211&s='' @ formEncode (q @ js '' '' @ y)
           @ js ''&origin=searchadvanced&editSaveSearch=&limit='' @ numberToString l"
proof -
  let ?kept = "list_all (\<lambda>c. isAlphaNum c \<or> unat c \<in> {0x2A, 0x2D, 0x2E, 0x5F})"
  let ?P = "[(js ''sort'', js ''plf-f''), (js ''src'', js ''s''), (js ''sot'', js ''a''),
             (js ''sdt'', js ''a''), (js ''sl'', js ''211''), (js ''s'', q),
             (js ''origin'', js ''searchadvanced''), (js ''editSaveSearch'', []),
             (js ''limit'', numberToString l)]"
  have lits: "?kept (js ''sort'')" "?kept (js ''plf-f'')" "?kept (js ''src'')" "?kept (js ''s'')"
    "?kept (js ''sot'')" "?kept (js ''a'')" "?kept (js ''sdt'')" "?kept (js ''sl'')"
    "?kept (js ''211'')" "?kept (js ''origin'')" "?kept (js ''searchadvanced'')"
    "?kept (js ''editSaveSearch'')" "?kept (js ''limit'')"
    by (simp_all add: js_def isAlphaNum_def)
  have sp: "isAscii (js '' '')" by (simp add: js_def isAscii_def)
  have v: "isAscii (q @ js '' '' @ y)" using q y sp by simp
  note usv = lits [THEN toUSVString_keptChars] toUSVString_ascii [OF q]
    toUSVString_ascii [OF v] numberToString_keptChars [OF l, THEN toUSVString_keptChars]
  note enc = lits [THEN formEncode_keptChars]
    numberToString_keptChars [OF l, THEN formEncode_keptChars]
  have e0: "formEncode [] = []" by (simp add: formEncode_def)
  have P: "new_URLSearchParams ?P = ?P"
    unfolding new_URLSearchParams_def by (simp add: usv)
  have g: "params_get ?P (js ''s'') = Some q"
    unfolding params_get_def usv by (simp add: js_def)
  have s: "params_set ?P (js ''s'') (q @ js '' '' @ y) =
           [(js ''sort'', js ''plf-f''), (js ''src'', js ''s''), (js ''sot'', js ''a''),
            (js ''sdt'', js ''a''), (js ''sl'', js ''211''), (js ''s'', q @ js '' '' @ y),
            (js ''origin'', js ''searchadvanced''), (js ''editSaveSearch'', []),
            (js ''limit'', numberToString l)]"
    unfolding params_set_def usv by (simp add: js_def)
  have "params_toString (params_set ?P (js ''s'') (q @ js '' '' @ y))
        = js ''sort'' @ js ''='' @ js ''plf-f'' @ js ''&'' @ js ''src'' @ js ''='' @ js ''s''
          @ js ''&'' @ js ''sot'' @ js ''='' @ js ''a'' @ js ''&'' @ js ''sdt'' @ js ''=''
          @ js ''a'' @ js ''&'' @ js ''sl'' @ js ''='' @ js ''211'' @ js ''&'' @ js ''s''
          @ js ''='' @ formEncode (q @ js '' '' @ y) @ js ''&'' @ js ''origin'' @ js ''=''
          @ js ''searchadvanced'' @ js ''&'' @ js ''editSaveSearch'' @ js ''='' @ js ''&''
          @ js ''limit'' @ js ''='' @ numberToString l"
    unfolding s params_toString_def by (simp add: enc e0)
  then show ?thesis unfolding P g interpolate_def by (simp add: js_def)
qed

lemma generateScopusURL_shape:
  assumes safe: "safeNumbers fd"
  shows "generateScopusURL fd =
     (case encodeURIComponent (scopusFullQuery (searchTerms fd)) of
        Inl e \<Rightarrow> Inl e
      | Inr q \<Rightarrow>
          Inr (js ''https://www.scopus.com/results/results.uri?sort=plf-f&src=s&sot=a&sdt=a&sl=211&s=''
               @ formEncode (q @ js '' '' @ js ''AND%20PUBYEAR%20%3E%20''
                             @ numberToString (startYear fd) @ js ''%20AND%20PUBYEAR%20%3C%20''
                             @ numberToString (endYear fd + 1))
               @ js ''&origin=searchadvanced&editSaveSearch=&limit=''
               @ numberToString (resultsPerPage fd)))"
proof (cases "encodeURIComponent (scopusFullQuery (searchTerms fd))")
  case (Inl e)
  then show ?thesis by (simp add: generateScopusURL_def buildScopusQuery_encodes)
next
  case (Inr q)
  then have q: "isAscii q" by (rule encodeURIComponent_ascii)
  from safe have s: "isExactInteger (startYear fd)" and e: "isSafeInteger (endYear fd)"
    and l: "isExactInteger (resultsPerPage fd)"
    by (simp_all add: safeNumbers_def isSafeInteger_exact)
  note yc = encodeURIComponent_yearClause [OF s e]
  from yc have y: "isAscii (js ''AND%20PUBYEAR%20%3E%20'' @ numberToString (startYear fd)
          @ js ''%20AND%20PUBYEAR%20%3C%20'' @ numberToString (endYear fd + 1))"
    by (rule encodeURIComponent_ascii)
  from scopus_params_toString [OF q y l] Inr yc show ?thesis
    unfolding generateScopusURL_def buildScopusQuery_encodes
    by (simp add: scopusBaseURL_def js_def Let_def)
qed

section \<open>Term groups\<close>

lemma join_Cons_nonempty: "x \<noteq> [] \<Longrightarrow> join sep (x # xs) \<noteq> []"
  by (cases xs) simp_all

lemma join_map_nonempty:
  "(\<And>x. f x \<noteq> []) \<Longrightarrow> (join sep (map f xs) = []) = (xs = [])"
  by (cases xs) (simp_all add: join_Cons_nonempty)

lemma ieeeClause_nonempty: "ieeeClause grp t \<noteq> []"
  by (simp add: ieeeClause_def js_def)

lemma scopusClause_nonempty: "scopusClause grp t \<noteq> []"
  by (simp add: scopusClause_def js_def)

lemma ieeeGroupTerms_empty_iff:
  "(ieeeGroupTerms grp = []) = (filter (\<lambda>t. trim t \<noteq> []) (terms grp) = [])"
  unfolding ieeeGroupTerms_def by (rule join_map_nonempty) (rule ieeeClause_nonempty)

lemma scopusGroupTerms_empty_iff:
  "(scopusGroupTerms grp = []) = (filter (\<lambda>t. trim t \<noteq> []) (terms grp) = [])"
  unfolding scopusGroupTerms_def by (rule join_map_nonempty) (rule scopusClause_nonempty)

lemma ieeeTermGroups_eq:
  "ieeeTermGroups groups =
     map (\<lambda>grp. js ''('' @ ieeeGroupTerms grp @ js '')'')
       (filter (\<lambda>grp. filter (\<lambda>t. trim t \<noteq> []) (terms grp) \<noteq> []) groups)"
  unfolding ieeeTermGroups_def
  by (induction groups) (simp_all add: ieeeGroupTerms_empty_iff js_def)

lemma scopusTermGroups_eq:
  "scopusTermGroups groups =
     map (\<lambda>grp. js ''('' @ scopusGroupTerms grp @ js '')'')
       (filter (\<lambda>grp. filter (\<lambda>t. trim t \<noteq> []) (terms grp) \<noteq> []) groups)"
  unfolding scopusTermGroups_def
  by (induction groups) (simp_all add: scopusGroupTerms_empty_iff js_def)

lemma spec_remainingTerms_eq:
  "spec_remainingTerms grp = map trim (filter (\<lambda>t. trim t \<noteq> []) (terms grp))"
  by (simp add: spec_remainingTerms_def filter_map comp_def)

lemma ieeeClause_spec: "ieeeClause grp = (\<lambda>t. spec_ieeeAtom (searchField grp) (trim t))"
  by (rule ext) (simp add: ieeeClause_def spec_ieeeAtom_def)

lemma scopusClause_spec: "scopusClause grp = (\<lambda>t. spec_scopusAtom (searchField grp) (trim t))"
  by (rule ext) (simp add: scopusClause_def spec_scopusAtom_def)

lemma spec_groupClauses_ieee:
  "List.map_filter (spec_groupClause spec_ieeeAtom) groups = ieeeTermGroups groups"
  unfolding ieeeTermGroups_eq
  by (induction groups)
     (simp_all add: List.map_filter_simps spec_groupClause_def spec_remainingTerms_eq
        ieeeGroupTerms_def ieeeClause_spec comp_def)

lemma spec_groupClauses_scopus:
  "List.map_filter (spec_groupClause spec_scopusAtom) groups = scopusTermGroups groups"
  unfolding scopusTermGroups_eq
  by (induction groups)
     (simp_all add: List.map_filter_simps spec_groupClause_def spec_remainingTerms_eq
        scopusGroupTerms_def scopusClause_spec comp_def)

lemma ieeeTermGroups_append:
  "ieeeTermGroups (xs @ ys) = ieeeTermGroups xs @ ieeeTermGroups ys"
  by (simp add: ieeeTermGroups_def)

lemma scopusTermGroups_append:
  "scopusTermGroups (xs @ ys) = scopusTermGroups xs @ scopusTermGroups ys"
  by (simp add: scopusTermGroups_def)

lemma isWellFormed_js_lits:
  "isWellFormed (js ''('')" "isWellFormed (js '')'')" "isWellFormed (js '' '')"
  "isWellFormed (js '' AND '')" "isWellFormed (js ''(\"'')" "isWellFormed (js ''\":\"'')"
  "isWellFormed (js ''\")'')"
  by (simp_all add: js_def isHighSurrogate_def isLowSurrogate_def)

lemma wellFormed_ieeeGroupTerms:
  assumes "wellFormedGroup grp"
  shows "isWellFormed (ieeeGroupTerms grp)"
proof -
  from assms have f: "isWellFormed (searchField grp)" and o: "isWellFormed (operator grp)"
    and t: "list_all isWellFormed (terms grp)"
    by (simp_all add: wellFormedGroup_def)
  have "isWellFormed (ieeeClause grp x)" if "x \<in> set (terms grp)" for x
  proof -
    from t that have "isWellFormed (trim x)" by (auto simp: list_all_iff intro: isWellFormed_trim)
    with f show ?thesis
      unfolding ieeeClause_def by (intro isWellFormed_append isWellFormed_js_lits)
  qed
  then have "list_all isWellFormed
               (map (ieeeClause grp) (filter (\<lambda>t. trim t \<noteq> []) (terms grp)))"
    by (simp add: list_all_iff)
  moreover have "isWellFormed (js '' '' @ operator grp @ js '' '')"
    using o by (intro isWellFormed_append isWellFormed_js_lits)
  ultimately show ?thesis unfolding ieeeGroupTerms_def by (rule isWellFormed_join [rotated])
qed

lemma wellFormed_scopusGroupTerms:
  assumes "wellFormedGroup grp"
  shows "isWellFormed (scopusGroupTerms grp)"
proof -
  from assms have f: "isWellFormed (searchField grp)" and o: "isWellFormed (operator grp)"
    and t: "list_all isWellFormed (terms grp)"
    by (simp_all add: wellFormedGroup_def)
  have "isWellFormed (scopusClause grp x)" if "x \<in> set (terms grp)" for x
  proof -
    from t that have "isWellFormed (trim x)" by (auto simp: list_all_iff intro: isWellFormed_trim)
    with f show ?thesis
      unfolding scopusClause_def by (intro isWellFormed_append isWellFormed_js_lits)
  qed
  then have "list_all isWellFormed
               (map (scopusClause grp) (filter (\<lambda>t. trim t \<noteq> []) (terms grp)))"
    by (simp add: list_all_iff)
  moreover have "isWellFormed (js '' '' @ operator grp @ js '' '')"
    using o by (intro isWellFormed_append isWellFormed_js_lits)
  ultimately show ?thesis unfolding scopusGroupTerms_def by (rule isWellFormed_join [rotated])
qed

lemma wellFormed_ieeeFullQuery:
  assumes "list_all wellFormedGroup groups"
  shows "isWellFormed (ieeeFullQuery groups)"
proof -
  have "list_all isWellFormed (ieeeTermGroups groups)"
    unfolding ieeeTermGroups_eq using assms
    by (auto simp: list_all_iff
        intro!: isWellFormed_append isWellFormed_js_lits wellFormed_ieeeGroupTerms)
  then show ?thesis
    unfolding ieeeFullQuery_def by (rule isWellFormed_join [OF isWellFormed_js_lits(4)])
qed

lemma wellFormed_scopusFullQuery:
  assumes "list_all wellFormedGroup groups"
  shows "isWellFormed (scopusFullQuery groups)"
proof -
  have "list_all isWellFormed (scopusTermGroups groups)"
    unfolding scopusTermGroups_eq using assms
    by (auto simp: list_all_iff
        intro!: isWellFormed_append isWellFormed_js_lits wellFormed_scopusGroupTerms)
  then show ?thesis
    unfolding scopusFullQuery_def by (rule isWellFormed_join [OF isWellFormed_js_lits(4)])
qed

section \<open>Evaluation at the scenarios\<close>

lemmas str_defs = js_def trim_def isWhiteSpace_def

lemmas form_defs = formEncode_def formByte_def

lemma wellFormedModel_scenario2: "wellFormedModel scenario2"
  by (simp add: wellFormedModel_def wellFormedGroup_def scenario2_def scenarioGroup_def js_def
      isHighSurrogate_def isLowSurrogate_def)

lemma wellFormedModel_scenario1: "wellFormedModel scenario1"
  by (simp add: wellFormedModel_def wellFormedGroup_def scenario1_def scenarioGroup_def js_def
      isHighSurrogate_def isLowSurrogate_def)

lemma safeNumbers_scenarios:
  "safeNumbers scenario1" "safeNumbers scenario2" "safeNumbers scenario3"
  by (simp_all add: safeNumbers_def isSafeInteger_def scenario1_def scenario2_def scenario3_def)

lemma exactYears_scenarios:
  "isExactInteger (startYear scenario1)" "isExactInteger (endYear scenario1)"
  "isExactInteger (startYear scenario2)" "isExactInteger (endYear scenario2)"
  by (simp_all add: isExactInteger_def scenario1_def scenario2_def)

lemma numberToString_literals:
  "numberToString 50 = js ''50''" "numberToString 200 = js ''200''"
  "numberToString 2019 = js ''2019''" "numberToString 2026 = js ''2026''"
  "numberToString 2027 = js ''2027''"
  by (simp_all add: numberToString_def isExactInteger_def natToString.simps digitChar_def js_def)

section \<open>What the serializers read of a model\<close>

lemma generateIEEEURL_cong:
  assumes "searchTerms a = searchTerms b" and "startYear a = startYear b"
    and "endYear a = endYear b"
  shows "generateIEEEURL a = generateIEEEURL b"
  unfolding generateIEEEURL_def assms by (rule refl)

lemma generateScopusURL_cong:
  assumes "searchTerms a = searchTerms b" and "startYear a = startYear b"
    and "endYear a = endYear b" and "resultsPerPage a = resultsPerPage b"
  shows "generateScopusURL a = generateScopusURL b"
  unfolding generateScopusURL_def yearClause_def assms by (rule refl)

lemma generateURL_cong:
  assumes "searchTerms a = searchTerms b" and "startYear a = startYear b"
    and "endYear a = endYear b" and "resultsPerPage a = resultsPerPage b"
  shows "generateURL g a = generateURL g b"
  unfolding generateURL_def generateIEEEURL_cong [OF assms(1-3)] generateScopusURL_cong [OF assms]
  by (rule refl)

section \<open>The claims\<close>

subsection \<open>C1: what generateURL dispatches on\<close>

text \<open>
  Claim C1 says that \<open>generateURL\<close> dispatches on the target field of the model and keeps
  no state between calls. The generator keeps \<open>currentDatabase\<close>, and the switch reads
  that field: a new generator turns the Scopus model of scenario 2 into the IEEE URL,
  and the same model gives another URL once \<open>setDatabase\<close> has been called.
\<close>

theorem generateURL_dispatch_counterexample:
  "database scenario2 = js ''scopus''
   \<and> generateURL new_SearchURLGenerator scenario2 = generateIEEEURL scenario2
   \<and> generateURL new_SearchURLGenerator scenario2 \<noteq> generateScopusURL scenario2
   \<and> generateURL (setDatabase (js ''scopus'') new_SearchURLGenerator) scenario2
       \<noteq> generateURL new_SearchURLGenerator scenario2"
proof -
  have d: "database scenario2 = js ''scopus''" by (simp add: scenario2_def)
  have i: "generateURL new_SearchURLGenerator scenario2 = generateIEEEURL scenario2"
    by (simp add: generateURL_def new_SearchURLGenerator_def)
  have s: "generateURL (setDatabase (js ''scopus'') new_SearchURLGenerator) scenario2
           = generateScopusURL scenario2"
    by (simp add: generateURL_def setDatabase_def js_def)
  from wellFormedModel_scenario2 have wf: "list_all wellFormedGroup (searchTerms scenario2)"
    by (simp add: wellFormedModel_def)
  obtain qi where qi: "encodeURIComponent (ieeeFullQuery (searchTerms scenario2)) = Inr qi"
    using encodeURIComponent_wellFormed [OF wellFormed_ieeeFullQuery [OF wf]] by blast
  obtain qs where qs: "encodeURIComponent (scopusFullQuery (searchTerms scenario2)) = Inr qs"
    using encodeURIComponent_wellFormed [OF wellFormed_scopusFullQuery [OF wf]] by blast
  have ne: "generateIEEEURL scenario2 \<noteq> generateScopusURL scenario2"
    unfolding generateIEEEURL_shape [OF exactYears_scenarios(3,4)]
      generateScopusURL_shape [OF safeNumbers_scenarios(2)] qi qs
    by (simp add: js_def)
  from d i s ne show ?thesis by simp
qed

text \<open>
  Claim C1, amended: \<open>generateURL\<close> dispatches on the generator's current database, which
  is \<open>ieee\<close> for a new generator and afterwards whatever the last \<open>setDatabase\<close> stored;
  it yields the IEEE URL for \<open>ieee\<close>, the Scopus URL for \<open>scopus\<close> and the error otherwise.
  It never reads the model's own \<open>database\<close> field, nor the form-level field selection,
  so for a fixed current database the result is a function of the model's groups,
  years and page size alone: two models that agree on these get the same result.
\<close>

theorem generateURL_dispatches_on_generator:
  "generateURL (setDatabase db g) fd =
     (if db = js ''ieee'' then generateIEEEURL fd
      else if db = js ''scopus'' then generateScopusURL fd
      else Inl (Error (js ''Unsupported database type'')))
   \<and> generateURL new_SearchURLGenerator fd = generateIEEEURL fd
   \<and> generateURL g (fd\<lparr>database := db', searchField_form := f'\<rparr>) = generateURL g fd
   \<and> (searchTerms a = searchTerms b \<and> startYear a = startYear b \<and> endYear a = endYear b
        \<and> resultsPerPage a = resultsPerPage b
      \<longrightarrow> generateURL g a = generateURL g b)"
proof -
  have d: "generateURL (setDatabase db g) fd =
     (if db = js ''ieee'' then generateIEEEURL fd
      else if db = js ''scopus'' then generateScopusURL fd
      else Inl (Error (js ''Unsupported database type'')))"
    by (simp add: generateURL_def setDatabase_def)
  have n: "generateURL new_SearchURLGenerator fd = generateIEEEURL fd"
    by (simp add: generateURL_def new_SearchURLGenerator_def)
  have u: "generateURL g (fd\<lparr>database := db', searchField_form := f'\<rparr>) = generateURL g fd"
    by (rule generateURL_cong) simp_all
  have c: "generateURL g a = generateURL g b"
    if "searchTerms a = searchTerms b \<and> startYear a = startYear b \<and> endYear a = endYear b
        \<and> resultsPerPage a = resultsPerPage b"
    using that by (intro generateURL_cong) simp_all
  from d n u c show ?thesis by blast
qed

theorem generateURL_dispatches_on_generator_witness:
  "searchTerms scenario1
     = searchTerms (scenario1\<lparr>database := js ''scopus'', searchField_form := js ''Title''\<rparr>)
   \<and> startYear scenario1
     = startYear (scenario1\<lparr>database := js ''scopus'', searchField_form := js ''Title''\<rparr>)
   \<and> endYear scenario1
     = endYear (scenario1\<lparr>database := js ''scopus'', searchField_form := js ''Title''\<rparr>)
   \<and> resultsPerPage scenario1
     = resultsPerPage (scenario1\<lparr>database := js ''scopus'', searchField_form := js ''Title''\<rparr>)
   \<and> database scenario1
     \<noteq> database (scenario1\<lparr>database := js ''scopus'', searchField_form := js ''Title''\<rparr>)
   \<and> generateURL new_SearchURLGenerator scenario1
     = generateURL new_SearchURLGenerator
         (scenario1\<lparr>database := js ''scopus'', searchField_form := js ''Title''\<rparr>)"
proof -
  have e: "searchTerms scenario1
     = searchTerms (scenario1\<lparr>database := js ''scopus'', searchField_form := js ''Title''\<rparr>)"
    "startYear scenario1
     = startYear (scenario1\<lparr>database := js ''scopus'', searchField_form := js ''Title''\<rparr>)"
    "endYear scenario1
     = endYear (scenario1\<lparr>database := js ''scopus'', searchField_form := js ''Title''\<rparr>)"
    "resultsPerPage scenario1
     = resultsPerPage (scenario1\<lparr>database := js ''scopus'', searchField_form := js ''Title''\<rparr>)"
    by simp_all
  have d: "database scenario1
     \<noteq> database (scenario1\<lparr>database := js ''scopus'', searchField_form := js ''Title''\<rparr>)"
    by (simp add: scenario1_def js_def)
  from generateURL_dispatches_on_generator
         [where a = scenario1
            and b = "scenario1\<lparr>database := js ''scopus'', searchField_form := js ''Title''\<rparr>"
            and g = new_SearchURLGenerator] e d
  show ?thesis by blast
qed

subsection \<open>C2: scenario 1\<close>

lemma scenario1_fullQuery:
  "ieeeFullQuery (searchTerms scenario1) =
     js ''((\"All Metadata\":\"neural decoding\") OR (\"All Metadata\":\"brain decoding\"))''"
  by (simp add: ieeeFullQuery_def ieeeTermGroups_def ieeeGroupTerms_def ieeeClause_def
      scenario1_def scenarioGroup_def str_defs)

lemma scenario1_encoded:
  "encodeURIComponent (ieeeFullQuery (searchTerms scenario1)) = Inr (js ''((%22All%20Metadata%22%3A%22neural%20decoding%22)%20OR%20(%22All%20Metadata%22%3A%22brain%20decoding%22))'')"
  unfolding scenario1_fullQuery by (simp add: js_def enc_defs)

lemma scenario1_formEncoded:
  "formEncode (js ''((%22All%20Metadata%22%3A%22neural%20decoding%22)%20OR%20(%22All%20Metadata%22%3A%22brain%20decoding%22))'')
   = js ''%28%28%2522All%2520Metadata%2522%253A%2522neural%2520decoding%2522%29%2520OR%2520%28%2522All%2520Metadata%2522%253A%2522brain%2520decoding%2522%29%29''"
  by (simp add: js_def form_defs enc_defs)

lemma scenario1_years: "startYear scenario1 = 2019" "endYear scenario1 = 2026"
  by (simp_all add: scenario1_def)

lemma scenario1_generateIEEEURL:
  "generateIEEEURL scenario1 =
     Inr (js ''https://ieeexplore.ieee.org/search/searchresult.jsp?action=search&newsearch=true&matchBoolean=true&queryText=%28%28%2522All%2520Metadata%2522%253A%2522neural%2520decoding%2522%29%2520OR%2520%28%2522All%2520Metadata%2522%253A%2522brain%2520decoding%2522%29%29&ranges=2019_2026_Year'')"
  unfolding generateIEEEURL_shape [OF exactYears_scenarios(1,2)] scenario1_encoded
    scenario1_years numberToString_literals
  by (simp add: scenario1_formEncoded) (simp add: js_def)

text \<open>
  Claim C2 gives the query fragment of scenario 1 before encoding as the two clauses
  joined by \<open>OR\<close>. The group is wrapped in parentheses before the groups are joined,
  so the fragment is not that text.
\<close>

theorem scenario1_fragment_counterexample:
  "ieeeFullQuery (searchTerms scenario1) \<noteq>
     js ''(\"All Metadata\":\"neural decoding\") OR (\"All Metadata\":\"brain decoding\")''"
  unfolding scenario1_fullQuery by (simp add: js_def)

text \<open>
  Claim C2, amended: for scenario 1 (target IEEE, one group, field \<open>All Metadata\<close>,
  operator \<open>OR\<close>, terms \<open>neural decoding\<close> and \<open>brain decoding\<close>, years 2019 to 2026) the
  clauses of the group joined by its operator are
  \<open>("All Metadata":"neural decoding") OR ("All Metadata":"brain decoding")\<close>, the query
  fragment before encoding is that text inside the parentheses of the group, and the
  generated URL carries \<open>ranges=2019_2026_Year\<close>.
\<close>

theorem scenario1_ieee_url:
  "ieeeGroupTerms scenarioGroup =
     js ''(\"All Metadata\":\"neural decoding\") OR (\"All Metadata\":\"brain decoding\")''
   \<and> ieeeFullQuery (searchTerms scenario1) =
     js ''((\"All Metadata\":\"neural decoding\") OR (\"All Metadata\":\"brain decoding\"))''
   \<and> generateURL new_SearchURLGenerator scenario1 =
     Inr (js ''https://ieeexplore.ieee.org/search/searchresult.jsp?action=search&newsearch=true&matchBoolean=true&queryText=%28%28%2522All%2520Metadata%2522%253A%2522neural%2520decoding%2522%29%2520OR%2520%28%2522All%2520Metadata%2522%253A%2522brain%2520decoding%2522%29%29&ranges=2019_2026_Year'')"
proof -
  have g: "ieeeGroupTerms scenarioGroup =
     js ''(\"All Metadata\":\"neural decoding\") OR (\"All Metadata\":\"brain decoding\")''"
    by (simp add: ieeeGroupTerms_def ieeeClause_def scenarioGroup_def str_defs)
  from g scenario1_fullQuery scenario1_generateIEEEURL show ?thesis
    by (simp add: generateURL_def new_SearchURLGenerator_def)
qed

subsection \<open>C3: switching the database\<close>

lemma init_value:
  "init =
     \<lparr>searchGenerator = Some \<lparr>currentDatabase = js ''ieee''\<rparr>,
      formData_ui =
        \<lparr>database = js ''ieee'',
         searchTerms =
           [\<lparr>id_group = js ''termGroup1'', searchField = js ''All Metadata'',
             operator = js ''OR'', terms = [js ''neural decoding'', js ''brain decoding'']\<rparr>],
         startYear = 2020, endYear = 2024, searchField_form = js ''All Metadata'',
         resultsPerPage = 50\<rparr>,
      termGroupCounter = 1\<rparr>"
  by (simp add: init_def setSearchGenerator_def new_UIManager_def initializeDefaultState_def
      addTermGroup_def new_SearchURLGenerator_def natToString.simps digitChar_def js_def)

lemma updateFieldOptions_searchTerms:
  "searchTerms (formData_ui (updateFieldOptions db ui)) = searchTerms (formData_ui ui)"
proof -
  have *: "searchTerms (formData_ui (foldl (\<lambda>u opt.
                  if option_value opt = js ''All Metadata''
                     \<or> option_value opt = js ''TITLE-ABS-KEY''
                  then u\<lparr>formData_ui := (formData_ui u)\<lparr>searchField_form := option_value opt\<rparr>\<rparr>
                  else u) u0 opts)) = searchTerms (formData_ui u0)" for opts u0
    by (induction opts arbitrary: u0) simp_all
  show ?thesis
    unfolding updateFieldOptions_def by (cases "searchGenerator ui") (simp_all only: * option.case)
qed

lemma handleDatabaseChange_searchTerms:
  "searchTerms (formData_ui (handleDatabaseChange db ui)) = searchTerms (formData_ui ui)"
  by (simp add: handleDatabaseChange_def Let_def updateFieldOptions_searchTerms
      split: option.split)

text \<open>
  Claim C3 says that switching the target re-tags every existing group with the new
  target's default field. \<open>handleDatabaseChange\<close> sets the database of the form and of
  the generator, and \<open>updateFieldOptions\<close> resets the form-level field selection, but
  neither writes to the groups (\<open>handleDatabaseChange_searchTerms\<close>): after the
  application's initial state is switched to Scopus, its group still has the field
  \<open>All Metadata\<close>. The sibling handler \<open>handleFieldChange\<close> is the one that re-tags the
  groups.
\<close>

theorem handleDatabaseChange_keeps_group_fields:
  "map searchField (searchTerms (formData_ui init)) = [js ''All Metadata'']
   \<and> database (formData_ui (handleDatabaseChange (js ''scopus'') init)) = js ''scopus''
   \<and> searchGenerator (handleDatabaseChange (js ''scopus'') init)
       = Some \<lparr>currentDatabase = js ''scopus''\<rparr>
   \<and> searchField_form (formData_ui (handleDatabaseChange (js ''scopus'') init))
       = js ''TITLE-ABS-KEY''
   \<and> map searchField (searchTerms (formData_ui (handleDatabaseChange (js ''scopus'') init)))
       = [js ''All Metadata'']
   \<and> map searchField
         (searchTerms (formData_ui
            (handleFieldChange (js ''TITLE-ABS-KEY'') (handleDatabaseChange (js ''scopus'') init))))
       = [js ''TITLE-ABS-KEY'']"
proof -
  have a: "map searchField (searchTerms (formData_ui init)) = [js ''All Metadata'']"
    unfolding init_value by simp
  have b: "handleDatabaseChange (js ''scopus'') init =
     \<lparr>searchGenerator = Some \<lparr>currentDatabase = js ''scopus''\<rparr>,
      formData_ui =
        \<lparr>database = js ''scopus'',
         searchTerms =
           [\<lparr>id_group = js ''termGroup1'', searchField = js ''All Metadata'',
             operator = js ''OR'', terms = [js ''neural decoding'', js ''brain decoding'']\<rparr>],
         startYear = 2020, endYear = 2024, searchField_form = js ''TITLE-ABS-KEY'',
         resultsPerPage = 50\<rparr>,
      termGroupCounter = 1\<rparr>"
    unfolding init_value
    by (simp add: handleDatabaseChange_def updateFieldOptions_def getFieldOptions_def
        setDatabase_def js_def)
  show ?thesis unfolding b by (simp add: a handleFieldChange_def)
qed

subsection \<open>C6: validation\<close>

lemma foldl_add_sum_list:
  "foldl (\<lambda>total x. total + f x) a xs = a + sum_list (map f xs)" for a :: nat
  by (induction xs arbitrary: a) simp_all

lemma totalTerms_sum_list:
  "totalTerms fd =
     sum_list (map (\<lambda>grp. length (filter (\<lambda>t. trim t \<noteq> []) (terms grp))) (searchTerms fd))"
  by (simp add: totalTerms_def foldl_add_sum_list)

text \<open>
  Claim C6 quotes the two error messages in lower case. The messages of the code start
  with a capital letter, so the texts of the claim are not in the error list: for
  scenario 3 (no non-blank term) and scenario 4 (start year 2024, end year 2020).
\<close>

theorem validateFormData_messages_counterexample:
  "\<not> hasValidTerms scenario3
   \<and> errors (validateFormData scenario3) = [js ''At least one search term is required'']
   \<and> js ''at least one search term is required'' \<notin> set (errors (validateFormData scenario3))
   \<and> startYear scenario4 > endYear scenario4
   \<and> errors (validateFormData scenario4)
       = [js ''Start year must be less than or equal to end year'']
   \<and> js ''start year must be less than or equal to end year''
       \<notin> set (errors (validateFormData scenario4))"
proof -
  have h3: "\<not> hasValidTerms scenario3"
    by (simp add: hasValidTerms_def scenario3_def scenarioGroup_def str_defs)
  have h4: "hasValidTerms scenario4"
    by (simp add: hasValidTerms_def scenario4_def scenario1_def scenarioGroup_def str_defs)
  have e3: "errors (validateFormData scenario3) = [js ''At least one search term is required'']"
    using h3 by (simp add: validateFormData_def Let_def scenario3_def)
  have e4: "errors (validateFormData scenario4)
       = [js ''Start year must be less than or equal to end year'']"
    using h4 by (simp add: validateFormData_def Let_def scenario4_def scenario1_def)
  have y4: "startYear scenario4 > endYear scenario4"
    by (simp add: scenario4_def scenario1_def)
  show ?thesis unfolding e3 e4 using h3 y4 by (simp add: js_def)
qed

text \<open>
  Claim C6, amended: \<open>validateFormData\<close> evaluates all four rules, none cutting another
  short. The error list is \<open>At least one search term is required\<close> when no group has a
  term that is non-blank after trimming, followed by \<open>Start year must be less than or
  equal to end year\<close> when the start year is greater than the end year. The warning list
  is one warning when the start year is below 1900 or the end year above 2030, followed
  by one when more than 20 non-blank terms are counted over all groups. \<open>isValid\<close> is true
  exactly when the error list is empty, so the warnings never change it.
\<close>

theorem validateFormData_report:
  "errors (validateFormData fd) =
     (if hasValidTerms fd then [] else [js ''At least one search term is required''])
     @ (if startYear fd > endYear fd
        then [js ''Start year must be less than or equal to end year''] else [])
   \<and> warnings (validateFormData fd) =
     (if startYear fd < 1900 \<or> endYear fd > 2030
      then [js ''Year range should be between 1900 and 2030''] else [])
     @ (if totalTerms fd > 20
        then [js ''Large number of search terms may result in very long URLs''] else [])
   \<and> isValid (validateFormData fd) = (errors (validateFormData fd) = [])
   \<and> isValid (validateFormData fd) = (hasValidTerms fd \<and> startYear fd \<le> endYear fd)
   \<and> hasValidTerms fd = (\<exists>grp \<in> set (searchTerms fd). \<exists>t \<in> set (terms grp). trim t \<noteq> [])
   \<and> totalTerms fd =
     sum_list (map (\<lambda>grp. length (filter (\<lambda>t. trim t \<noteq> []) (terms grp))) (searchTerms fd))"
proof -
  have h: "hasValidTerms fd = (\<exists>grp \<in> set (searchTerms fd). \<exists>t \<in> set (terms grp). trim t \<noteq> [])"
    by (simp add: hasValidTerms_def list_ex_iff)
  have e: "errors (validateFormData fd) =
     (if hasValidTerms fd then [] else [js ''At least one search term is required''])
     @ (if startYear fd > endYear fd
        then [js ''Start year must be less than or equal to end year''] else [])"
    by (simp add: validateFormData_def Let_def)
  have w: "warnings (validateFormData fd) =
     (if startYear fd < 1900 \<or> endYear fd > 2030
      then [js ''Year range should be between 1900 and 2030''] else [])
     @ (if totalTerms fd > 20
        then [js ''Large number of search terms may result in very long URLs''] else [])"
    by (simp add: validateFormData_def Let_def)
  have v: "isValid (validateFormData fd) = (errors (validateFormData fd) = [])"
    by (simp add: validateFormData_def Let_def)
  have v2: "isValid (validateFormData fd) = (hasValidTerms fd \<and> startYear fd \<le> endYear fd)"
    unfolding v e by auto
  from e w v v2 h totalTerms_sum_list show ?thesis by blast
qed

subsection \<open>C4: the clause-building algorithm\<close>

text \<open>
  Claim C4: for every list of groups and for both targets, the expression the code
  builds before encoding is the one the algorithm of the specification describes.
  Each group's terms are trimmed and the blank ones dropped, each remaining term
  becomes one atomic clause, the clauses of a group are joined with the group's own
  operator between spaces and wrapped in parentheses, and the clauses of the groups
  that have one are joined in order with \<open>AND\<close> between spaces, whatever the operators
  of the groups are. The code drops a group by testing the joined text, the
  specification by testing the remaining terms; the two agree.
\<close>

theorem clause_building_refines_spec:
  "ieeeFullQuery groups = spec_fragment spec_ieeeAtom groups
   \<and> scopusFullQuery groups = spec_fragment spec_scopusAtom groups
   \<and> buildIEEEQueryText groups = encodeURIComponent (spec_fragment spec_ieeeAtom groups)
   \<and> buildScopusQuery groups = encodeURIComponent (spec_fragment spec_scopusAtom groups)"
  by (simp add: buildIEEEQueryText_encodes buildScopusQuery_encodes ieeeFullQuery_def
      scopusFullQuery_def spec_fragment_def spec_groupClauses_ieee spec_groupClauses_scopus)

subsection \<open>C5: the Scopus parameters\<close>

lemma wellFormedModel_scopusQuery:
  "wellFormedModel fd \<Longrightarrow> \<exists>q. encodeURIComponent (scopusFullQuery (searchTerms fd)) = Inr q"
  unfolding wellFormedModel_def
  by (intro encodeURIComponent_wellFormed wellFormed_scopusFullQuery)

lemma wellFormedModel_ieeeQuery:
  "wellFormedModel fd \<Longrightarrow> \<exists>q. encodeURIComponent (ieeeFullQuery (searchTerms fd)) = Inr q"
  unfolding wellFormedModel_def
  by (intro encodeURIComponent_wellFormed wellFormed_ieeeFullQuery)

text \<open>
  Claim C5: the Scopus serializer puts the percent-encoded boolean expression into the
  parameter \<open>s\<close>; the year clause \<open>AND PUBYEAR > startYear AND PUBYEAR < endYear + 1\<close>,
  itself percent-encoded, is appended to the same value after a space (not as a
  parameter of its own); and the URL has exactly the parameters \<open>sort=plf-f\<close>, \<open>src=s\<close>,
  \<open>sot=a\<close>, \<open>sdt=a\<close>, \<open>sl=211\<close>, \<open>s\<close>, \<open>origin=searchadvanced\<close>, an empty
  \<open>editSaveSearch\<close> and \<open>limit\<close> with the page size, in this order. This is for every
  model whose years and page size are safe integers. Where \<open>encodeURIComponent\<close> throws,
  on an unpaired surrogate, the serializer throws the same error; for a model whose
  strings are well formed, so for every valid model of well-formed text, the
  expression is encoded and the URL is returned.
\<close>

theorem generateScopusURL_parameters:
  "safeNumbers fd \<Longrightarrow>
   generateScopusURL fd =
     (case encodeURIComponent (scopusFullQuery (searchTerms fd)) of
        Inl e \<Rightarrow> Inl e
      | Inr q \<Rightarrow>
          Inr (js ''https://www.scopus.com/results/results.uri?sort=plf-f&src=s&sot=a&sdt=a&sl=211&s=''
               @ formEncode (q @ js '' '' @ js ''AND%20PUBYEAR%20%3E%20''
                             @ numberToString (startYear fd) @ js ''%20AND%20PUBYEAR%20%3C%20''
                             @ numberToString (endYear fd + 1))
               @ js ''&origin=searchadvanced&editSaveSearch=&limit=''
               @ numberToString (resultsPerPage fd)))
   \<and> yearClause fd =
       js ''AND PUBYEAR > '' @ numberToString (startYear fd) @ js '' AND PUBYEAR < ''
       @ numberToString (endYear fd + 1)
   \<and> encodeURIComponent (yearClause fd)
       = Inr (js ''AND%20PUBYEAR%20%3E%20'' @ numberToString (startYear fd)
              @ js ''%20AND%20PUBYEAR%20%3C%20'' @ numberToString (endYear fd + 1))
   \<and> buildScopusQuery (searchTerms fd) = encodeURIComponent (scopusFullQuery (searchTerms fd))
   \<and> (wellFormedModel fd \<longrightarrow>
        (\<exists>q. encodeURIComponent (scopusFullQuery (searchTerms fd)) = Inr q))
   \<and> generateURL (setDatabase (js ''scopus'') g) fd = generateScopusURL fd"
proof -
  assume safe: "safeNumbers fd"
  then have s: "isExactInteger (startYear fd)" and e: "isSafeInteger (endYear fd)"
    by (simp_all add: safeNumbers_def isSafeInteger_exact)
  have d: "generateURL (setDatabase (js ''scopus'') g) fd = generateScopusURL fd"
    by (simp add: generateURL_def setDatabase_def js_def)
  from generateScopusURL_shape [OF safe] yearClause_safe [OF e]
    encodeURIComponent_yearClause [OF s e] buildScopusQuery_encodes [of "searchTerms fd"]
    wellFormedModel_scopusQuery [of fd] d
  show ?thesis by blast
qed

lemma scenario2_fullQuery:
  "scopusFullQuery (searchTerms scenario2) =
     js ''(TITLE-ABS-KEY(\"neural decoding\") OR TITLE-ABS-KEY(\"brain decoding\"))''"
  by (simp add: scopusFullQuery_def scopusTermGroups_def scopusGroupTerms_def scopusClause_def
      scenario2_def scenarioGroup_def str_defs)

lemma scenario2_encoded:
  "encodeURIComponent (scopusFullQuery (searchTerms scenario2)) =
     Inr (js ''(TITLE-ABS-KEY(%22neural%20decoding%22)%20OR%20TITLE-ABS-KEY(%22brain%20decoding%22))'')"
  unfolding scenario2_fullQuery by (simp add: js_def enc_defs)

theorem generateScopusURL_parameters_witness:
  "safeNumbers scenario2
   \<and> wellFormedModel scenario2
   \<and> generateScopusURL scenario2 =
     Inr (js ''https://www.scopus.com/results/results.uri?sort=plf-f&src=s&sot=a&sdt=a&sl=211&s=%28TITLE-ABS-KEY%28%2522neural%2520decoding%2522%29%2520OR%2520TITLE-ABS-KEY%28%2522brain%2520decoding%2522%29%29+AND%2520PUBYEAR%2520%253E%25202019%2520AND%2520PUBYEAR%2520%253C%25202027&origin=searchadvanced&editSaveSearch=&limit=50'')
   \<and> (\<exists>q. encodeURIComponent (scopusFullQuery (searchTerms scenario2)) = Inr q)"
proof -
  note t = generateScopusURL_parameters
             [OF safeNumbers_scenarios(2), where g = new_SearchURLGenerator]
  have y: "startYear scenario2 = 2019" "endYear scenario2 + 1 = 2027"
    "resultsPerPage scenario2 = 50"
    by (simp_all add: scenario2_def)
  have f: "formEncode (js ''(TITLE-ABS-KEY(%22neural%20decoding%22)%20OR%20TITLE-ABS-KEY(%22brain%20decoding%22))''
             @ js '' '' @ js ''AND%20PUBYEAR%20%3E%20'' @ js ''2019''
             @ js ''%20AND%20PUBYEAR%20%3C%20'' @ js ''2027'')
     = js ''%28TITLE-ABS-KEY%28%2522neural%2520decoding%2522%29%2520OR%2520TITLE-ABS-KEY%28%2522brain%2520decoding%2522%29%29+AND%2520PUBYEAR%2520%253E%25202019%2520AND%2520PUBYEAR%2520%253C%25202027''"
    by (simp add: js_def form_defs enc_defs)
  from t have "generateScopusURL scenario2 =
     (case encodeURIComponent (scopusFullQuery (searchTerms scenario2)) of
        Inl e \<Rightarrow> Inl e
      | Inr q \<Rightarrow>
          Inr (js ''https://www.scopus.com/results/results.uri?sort=plf-f&src=s&sot=a&sdt=a&sl=211&s=''
               @ formEncode (q @ js '' '' @ js ''AND%20PUBYEAR%20%3E%20''
                             @ numberToString (startYear scenario2)
                             @ js ''%20AND%20PUBYEAR%20%3C%20''
                             @ numberToString (endYear scenario2 + 1))
               @ js ''&origin=searchadvanced&editSaveSearch=&limit=''
               @ numberToString (resultsPerPage scenario2)))"
    by blast
  then have "generateScopusURL scenario2 =
     Inr (js ''https://www.scopus.com/results/results.uri?sort=plf-f&src=s&sot=a&sdt=a&sl=211&s=%28TITLE-ABS-KEY%28%2522neural%2520decoding%2522%29%2520OR%2520TITLE-ABS-KEY%28%2522brain%2520decoding%2522%29%29+AND%2520PUBYEAR%2520%253E%25202019%2520AND%2520PUBYEAR%2520%253C%25202027&origin=searchadvanced&editSaveSearch=&limit=50'')"
    unfolding scenario2_encoded y numberToString_literals by (simp add: f) (simp add: js_def)
  moreover from t wellFormedModel_scenario2
  have "\<exists>q. encodeURIComponent (scopusFullQuery (searchTerms scenario2)) = Inr q" by blast
  ultimately show ?thesis using wellFormedModel_scenario2 safeNumbers_scenarios(2) by blast
qed

subsection \<open>C7: the query fragment is encoded twice\<close>

lemma formEncode_space_append:
  assumes q: "isAscii q"
  shows "formEncode (q @ js '' '' @ y) = formEncode q @ js ''+'' @ formEncode y"
proof -
  have sp: "isAscii (js '' '')" by (simp add: js_def isAscii_def)
  have "formEncode (js '' '') = js ''+''"
    by (simp add: js_def form_defs enc_defs)
  then show ?thesis by (simp add: formEncode_append [OF q] formEncode_append [OF sp])
qed

text \<open>
  Claim C7: for both targets the boolean query fragment is percent-encoded twice. The
  serializer applies \<open>encodeURIComponent\<close> once to the whole joined expression, and the
  parameter assembly form-encodes that already encoded value: the \<open>queryText\<close> value of
  the IEEE URL is \<open>formEncode q\<close> and the \<open>s\<close> value of the Scopus URL starts with
  \<open>formEncode q\<close>, where \<open>q\<close> is the encoded expression. The second encoding turns every
  percent sign of the first into \<open>%25\<close>. The URLs are written out for models whose years
  and page size are safe integers.
\<close>

theorem query_fragment_double_encoded:
  "safeNumbers fd \<Longrightarrow>
   generateIEEEURL fd =
     (case encodeURIComponent (ieeeFullQuery (searchTerms fd)) of
        Inl e \<Rightarrow> Inl e
      | Inr q \<Rightarrow>
          Inr (js ''https://ieeexplore.ieee.org/search/searchresult.jsp?action=search&newsearch=true&matchBoolean=true&queryText=''
               @ formEncode q @ js ''&ranges='' @ numberToString (startYear fd) @ js ''_''
               @ numberToString (endYear fd) @ js ''_Year''))
   \<and> generateScopusURL fd =
     (case encodeURIComponent (scopusFullQuery (searchTerms fd)) of
        Inl e \<Rightarrow> Inl e
      | Inr q \<Rightarrow>
          Inr (js ''https://www.scopus.com/results/results.uri?sort=plf-f&src=s&sot=a&sdt=a&sl=211&s=''
               @ formEncode q @ js ''+''
               @ formEncode (js ''AND%20PUBYEAR%20%3E%20'' @ numberToString (startYear fd)
                             @ js ''%20AND%20PUBYEAR%20%3C%20''
                             @ numberToString (endYear fd + 1))
               @ js ''&origin=searchadvanced&editSaveSearch=&limit=''
               @ numberToString (resultsPerPage fd)))
   \<and> buildIEEEQueryText (searchTerms fd) = encodeURIComponent (ieeeFullQuery (searchTerms fd))
   \<and> buildScopusQuery (searchTerms fd) = encodeURIComponent (scopusFullQuery (searchTerms fd))
   \<and> formEncode (js ''%'') = js ''%25''"
proof -
  assume safe: "safeNumbers fd"
  then have x: "isExactInteger (startYear fd)" "isExactInteger (endYear fd)"
    by (simp_all add: safeNumbers_def isSafeInteger_exact)
  have s: "generateScopusURL fd =
     (case encodeURIComponent (scopusFullQuery (searchTerms fd)) of
        Inl e \<Rightarrow> Inl e
      | Inr q \<Rightarrow>
          Inr (js ''https://www.scopus.com/results/results.uri?sort=plf-f&src=s&sot=a&sdt=a&sl=211&s=''
               @ formEncode q @ js ''+''
               @ formEncode (js ''AND%20PUBYEAR%20%3E%20'' @ numberToString (startYear fd)
                             @ js ''%20AND%20PUBYEAR%20%3C%20''
                             @ numberToString (endYear fd + 1))
               @ js ''&origin=searchadvanced&editSaveSearch=&limit=''
               @ numberToString (resultsPerPage fd)))"
  proof (cases "encodeURIComponent (scopusFullQuery (searchTerms fd))")
    case (Inl e)
    then show ?thesis by (simp add: generateScopusURL_shape [OF safe])
  next
    case (Inr q)
    then have "isAscii q" by (rule encodeURIComponent_ascii)
    from formEncode_space_append [OF this] Inr show ?thesis
      by (simp add: generateScopusURL_shape [OF safe])
  qed
  have p: "formEncode (js ''%'') = js ''%25''"
    by (simp add: js_def form_defs enc_defs)
  from generateIEEEURL_shape [OF x] s buildIEEEQueryText_encodes [of "searchTerms fd"]
    buildScopusQuery_encodes [of "searchTerms fd"] p
  show ?thesis by blast
qed

theorem query_fragment_double_encoded_witness:
  "safeNumbers scenario1
   \<and> encodeURIComponent (ieeeFullQuery (searchTerms scenario1)) = Inr (js ''((%22All%20Metadata%22%3A%22neural%20decoding%22)%20OR%20(%22All%20Metadata%22%3A%22brain%20decoding%22))'')
   \<and> generateIEEEURL scenario1 =
     Inr (js ''https://ieeexplore.ieee.org/search/searchresult.jsp?action=search&newsearch=true&matchBoolean=true&queryText=%28%28%2522All%2520Metadata%2522%253A%2522neural%2520decoding%2522%29%2520OR%2520%28%2522All%2520Metadata%2522%253A%2522brain%2520decoding%2522%29%29&ranges=2019_2026_Year'')"
proof -
  from query_fragment_double_encoded [OF safeNumbers_scenarios(1)]
  have "generateIEEEURL scenario1 =
     (case encodeURIComponent (ieeeFullQuery (searchTerms scenario1)) of
        Inl e \<Rightarrow> Inl e
      | Inr q \<Rightarrow>
          Inr (js ''https://ieeexplore.ieee.org/search/searchresult.jsp?action=search&newsearch=true&matchBoolean=true&queryText=''
               @ formEncode q @ js ''&ranges='' @ numberToString (startYear scenario1)
               @ js ''_'' @ numberToString (endYear scenario1) @ js ''_Year''))"
    by blast
  then have "generateIEEEURL scenario1 =
     Inr (js ''https://ieeexplore.ieee.org/search/searchresult.jsp?action=search&newsearch=true&matchBoolean=true&queryText=%28%28%2522All%2520Metadata%2522%253A%2522neural%2520decoding%2522%29%2520OR%2520%28%2522All%2520Metadata%2522%253A%2522brain%2520decoding%2522%29%29&ranges=2019_2026_Year'')"
    unfolding scenario1_encoded scenario1_years numberToString_literals
    by (simp add: scenario1_formEncoded) (simp add: js_def)
  with safeNumbers_scenarios(1) scenario1_encoded show ?thesis by blast
qed

subsection \<open>C10: the IEEE URL does not depend on the page size\<close>

lemma generateIEEEURL_resultsPerPage:
  "generateIEEEURL (fd\<lparr>resultsPerPage := r\<rparr>) = generateIEEEURL fd"
  by (rule generateIEEEURL_cong) simp_all

text \<open>
  Claim C10 puts the condition on the models: two models of target IEEE that differ only
  in \<open>resultsPerPage\<close> get the same URL. \<open>generateURL\<close> does not read the target of the
  model: when the generator's current database is \<open>scopus\<close>, two models whose database
  is \<open>ieee\<close> and that differ only in the page size get URLs that differ in \<open>limit\<close>.
\<close>

theorem generateURL_resultsPerPage_counterexample:
  "database scenario1 = js ''ieee''
   \<and> database (scenario1\<lparr>resultsPerPage := 200\<rparr>) = js ''ieee''
   \<and> generateURL (setDatabase (js ''scopus'') new_SearchURLGenerator)
        (scenario1\<lparr>resultsPerPage := 200\<rparr>)
      \<noteq> generateURL (setDatabase (js ''scopus'') new_SearchURLGenerator) scenario1"
proof -
  have d: "database scenario1 = js ''ieee''"
    "database (scenario1\<lparr>resultsPerPage := 200\<rparr>) = js ''ieee''"
    by (simp_all add: scenario1_def)
  have sa: "safeNumbers (scenario1\<lparr>resultsPerPage := 200\<rparr>)"
    by (simp add: safeNumbers_def isSafeInteger_def scenario1_def)
  from wellFormedModel_scopusQuery [OF wellFormedModel_scenario1]
  obtain q where q: "encodeURIComponent (scopusFullQuery (searchTerms scenario1)) = Inr q" ..
  have r: "resultsPerPage scenario1 = 50" by (simp add: scenario1_def)
  have a: "generateScopusURL (scenario1\<lparr>resultsPerPage := 200\<rparr>) =
     Inr (js ''https://www.scopus.com/results/results.uri?sort=plf-f&src=s&sot=a&sdt=a&sl=211&s=''
          @ formEncode (q @ js '' '' @ js ''AND%20PUBYEAR%20%3E%20''
                        @ numberToString (startYear scenario1)
                        @ js ''%20AND%20PUBYEAR%20%3C%20''
                        @ numberToString (endYear scenario1 + 1))
          @ js ''&origin=searchadvanced&editSaveSearch=&limit='' @ js ''200'')"
    using generateScopusURL_shape [OF sa] q by (simp add: numberToString_literals)
  have b: "generateScopusURL scenario1 =
     Inr (js ''https://www.scopus.com/results/results.uri?sort=plf-f&src=s&sot=a&sdt=a&sl=211&s=''
          @ formEncode (q @ js '' '' @ js ''AND%20PUBYEAR%20%3E%20''
                        @ numberToString (startYear scenario1)
                        @ js ''%20AND%20PUBYEAR%20%3C%20''
                        @ numberToString (endYear scenario1 + 1))
          @ js ''&origin=searchadvanced&editSaveSearch=&limit='' @ js ''50'')"
    using generateScopusURL_shape [OF safeNumbers_scenarios(1)] q
    by (simp add: r numberToString_literals)
  have l: "js ''200'' \<noteq> js ''50''" by (simp add: js_def)
  have ne: "generateScopusURL (scenario1\<lparr>resultsPerPage := 200\<rparr>) \<noteq> generateScopusURL scenario1"
    unfolding a b using l by simp
  have g: "generateURL (setDatabase (js ''scopus'') new_SearchURLGenerator) m
           = generateScopusURL m" for m
    by (simp add: generateURL_def setDatabase_def js_def)
  from d ne show ?thesis unfolding g by blast
qed

text \<open>
  Claim C10, amended: for a generator whose current database is \<open>ieee\<close>, which is what
  \<open>generateURL\<close> dispatches on, two models that differ only in \<open>resultsPerPage\<close> get the
  same URL, whatever their own database field says. The IEEE serializer never reads
  the page size; its URL has exactly the parameters \<open>action\<close>, \<open>newsearch\<close>,
  \<open>matchBoolean\<close>, \<open>queryText\<close> and \<open>ranges\<close>, and the page size appears only in the
  Scopus URL, as \<open>limit\<close> (the URLs written out for safe-integer years and page size).
\<close>

theorem generateIEEEURL_ignores_resultsPerPage:
  "(currentDatabase g = js ''ieee'' \<longrightarrow>
      generateURL g (fd\<lparr>resultsPerPage := r\<rparr>) = generateURL g fd)
   \<and> generateIEEEURL (fd\<lparr>resultsPerPage := r\<rparr>) = generateIEEEURL fd
   \<and> (safeNumbers fd \<longrightarrow>
      generateIEEEURL fd =
     (case encodeURIComponent (ieeeFullQuery (searchTerms fd)) of
        Inl e \<Rightarrow> Inl e
      | Inr q \<Rightarrow>
          Inr (js ''https://ieeexplore.ieee.org/search/searchresult.jsp?action=search&newsearch=true&matchBoolean=true&queryText=''
               @ formEncode q @ js ''&ranges='' @ numberToString (startYear fd) @ js ''_''
               @ numberToString (endYear fd) @ js ''_Year''))
      \<and> generateScopusURL fd =
     (case encodeURIComponent (scopusFullQuery (searchTerms fd)) of
        Inl e \<Rightarrow> Inl e
      | Inr q \<Rightarrow>
          Inr (js ''https://www.scopus.com/results/results.uri?sort=plf-f&src=s&sot=a&sdt=a&sl=211&s=''
               @ formEncode (q @ js '' '' @ js ''AND%20PUBYEAR%20%3E%20''
                             @ numberToString (startYear fd) @ js ''%20AND%20PUBYEAR%20%3C%20''
                             @ numberToString (endYear fd + 1))
               @ js ''&origin=searchadvanced&editSaveSearch=&limit=''
               @ numberToString (resultsPerPage fd))))"
proof -
  have "generateURL g (fd\<lparr>resultsPerPage := r\<rparr>) = generateURL g fd"
    if "currentDatabase g = js ''ieee''"
    using that by (simp add: generateURL_def generateIEEEURL_resultsPerPage)
  moreover have "generateIEEEURL fd =
     (case encodeURIComponent (ieeeFullQuery (searchTerms fd)) of
        Inl e \<Rightarrow> Inl e
      | Inr q \<Rightarrow>
          Inr (js ''https://ieeexplore.ieee.org/search/searchresult.jsp?action=search&newsearch=true&matchBoolean=true&queryText=''
               @ formEncode q @ js ''&ranges='' @ numberToString (startYear fd) @ js ''_''
               @ numberToString (endYear fd) @ js ''_Year''))
      \<and> generateScopusURL fd =
     (case encodeURIComponent (scopusFullQuery (searchTerms fd)) of
        Inl e \<Rightarrow> Inl e
      | Inr q \<Rightarrow>
          Inr (js ''https://www.scopus.com/results/results.uri?sort=plf-f&src=s&sot=a&sdt=a&sl=211&s=''
               @ formEncode (q @ js '' '' @ js ''AND%20PUBYEAR%20%3E%20''
                             @ numberToString (startYear fd) @ js ''%20AND%20PUBYEAR%20%3C%20''
                             @ numberToString (endYear fd + 1))
               @ js ''&origin=searchadvanced&editSaveSearch=&limit=''
               @ numberToString (resultsPerPage fd)))"
    if safe: "safeNumbers fd"
  proof -
    from safe have x: "isExactInteger (startYear fd)" "isExactInteger (endYear fd)"
      by (simp_all add: safeNumbers_def isSafeInteger_exact)
    from generateIEEEURL_shape [OF x] generateScopusURL_shape [OF safe] show ?thesis by blast
  qed
  ultimately show ?thesis
    using generateIEEEURL_resultsPerPage [where fd = fd and r = r] by blast
qed

theorem generateIEEEURL_ignores_resultsPerPage_witness:
  "currentDatabase new_SearchURLGenerator = js ''ieee''
   \<and> resultsPerPage (scenario1\<lparr>resultsPerPage := 200\<rparr>) \<noteq> resultsPerPage scenario1
   \<and> generateURL new_SearchURLGenerator (scenario1\<lparr>resultsPerPage := 200\<rparr>)
       = generateURL new_SearchURLGenerator scenario1
   \<and> safeNumbers scenario1
   \<and> generateIEEEURL scenario1 =
     (case encodeURIComponent (ieeeFullQuery (searchTerms scenario1)) of
        Inl e \<Rightarrow> Inl e
      | Inr q \<Rightarrow>
          Inr (js ''https://ieeexplore.ieee.org/search/searchresult.jsp?action=search&newsearch=true&matchBoolean=true&queryText=''
               @ formEncode q @ js ''&ranges='' @ numberToString (startYear scenario1)
               @ js ''_'' @ numberToString (endYear scenario1) @ js ''_Year''))"
proof -
  have c: "currentDatabase new_SearchURLGenerator = js ''ieee''"
    by (simp add: new_SearchURLGenerator_def)
  have r: "resultsPerPage (scenario1\<lparr>resultsPerPage := 200\<rparr>) \<noteq> resultsPerPage scenario1"
    by (simp add: scenario1_def)
  from generateIEEEURL_ignores_resultsPerPage
    [where g = new_SearchURLGenerator and fd = scenario1 and r = 200] c r
    safeNumbers_scenarios(1)
  show ?thesis by blast
qed

subsection \<open>C8: errors and degenerate models\<close>

lemma jschar_eq_unat: "(c = d) = (unat c = unat d)" for c d :: jschar
  by (simp add: word_unat_eq_iff)

lemma valueChar_unat:
  "valueChar c = (isAlphaNum c \<or> unat c \<in> {0x2A, 0x2D, 0x2E, 0x5F, 0x25, 0x2B})"
  unfolding valueChar_def js_def by (auto simp: jschar_eq_unat)

lemma hexDigit_valueChar: "d < 16 \<Longrightarrow> valueChar (hexDigit d)"
  unfolding valueChar_unat isAlphaNum_def by (simp add: hexDigit_unat)

lemma formByte_valueChars: "b < 128 \<Longrightarrow> list_all valueChar (formByte b)"
proof -
  assume b: "b < 128"
  have u: "unat (of_nat b :: jschar) = b" using b by (simp add: unat_of_nat16)
  have p: "unat (of_nat 37 :: jschar) = 37" "unat (of_nat 43 :: jschar) = 43" by simp_all
  have h: "valueChar (hexDigit (b div 16))" "valueChar (hexDigit (b mod 16))"
    using b by (simp_all add: hexDigit_valueChar)
  show ?thesis
  proof (cases "b = 0x20")
    case True
    then show ?thesis unfolding formByte_def by (simp add: valueChar_unat)
  next
    case False
    note ns = this
    show ?thesis
    proof (cases "isAlphaNum (of_nat b) \<or> b \<in> {0x2A, 0x2D, 0x2E, 0x5F}")
      case True
      then have "valueChar (of_nat b)" unfolding valueChar_unat u by blast
      with ns True show ?thesis unfolding formByte_def by simp
    next
      case False
      have "valueChar (of_nat 37)" unfolding valueChar_unat p by simp
      with ns False h show ?thesis unfolding formByte_def percentByte_def by simp
    qed
  qed
qed

lemma formEncode_valueChars: "isAscii q \<Longrightarrow> list_all valueChar (formEncode q)"
proof -
  assume q: "isAscii q"
  have "formEncode q = concat (map formByte (map unat q))"
    using utf8Encode_ascii_append [OF q, of "[]"] by (simp add: formEncode_def)
  moreover have "list_all valueChar (formByte (unat c))" if "c \<in> set q" for c
  proof -
    from that q have "unat c < 128" by (simp add: isAscii_def list_all_iff)
    then show ?thesis by (rule formByte_valueChars)
  qed
  ultimately show ?thesis by (auto simp: list_all_iff)
qed

lemma blank_ieeeTermGroups: "\<not> hasValidTerms fd \<Longrightarrow> ieeeTermGroups (searchTerms fd) = []"
  unfolding ieeeTermGroups_eq hasValidTerms_def
  by (auto simp: list_ex_iff filter_empty_conv)

lemma blank_scopusTermGroups: "\<not> hasValidTerms fd \<Longrightarrow> scopusTermGroups (searchTerms fd) = []"
  unfolding scopusTermGroups_eq hasValidTerms_def
  by (auto simp: list_ex_iff filter_empty_conv)

lemma formEncode_Nil: "formEncode [] = []"
  by (simp add: formEncode_def)

lemma formEncode_encodedYear:
  assumes a: "isExactInteger a" and b: "isExactInteger b"
  shows "formEncode (js ''AND%20PUBYEAR%20%3E%20'' @ numberToString a
               @ js ''%20AND%20PUBYEAR%20%3C%20'' @ numberToString b)
   = js ''AND%2520PUBYEAR%2520%253E%2520'' @ numberToString a
     @ js ''%2520AND%2520PUBYEAR%2520%253C%2520'' @ numberToString b"
proof -
  have a1: "isAscii (js ''AND%20PUBYEAR%20%3E%20'')" "isAscii (js ''%20AND%20PUBYEAR%20%3C%20'')"
    by (simp_all add: js_def isAscii_def)
  have f: "formEncode (js ''AND%20PUBYEAR%20%3E%20'') = js ''AND%2520PUBYEAR%2520%253E%2520''"
    "formEncode (js ''%20AND%20PUBYEAR%20%3C%20'') = js ''%2520AND%2520PUBYEAR%2520%253C%2520''"
    by (simp_all add: js_def form_defs enc_defs)
  show ?thesis
    by (simp add: formEncode_append [OF a1(1)] formEncode_append [OF a1(2)]
        formEncode_append [OF numberToString_ascii [OF a]]
        formEncode_numberToString [OF a] formEncode_numberToString [OF b] f)
qed

lemma buildIEEEQueryText_error: "buildIEEEQueryText groups = Inl e \<Longrightarrow> e = URIError"
  unfolding buildIEEEQueryText_encodes by (drule encodeURIComponent_error) simp

lemma buildScopusQuery_error: "buildScopusQuery groups = Inl e \<Longrightarrow> e = URIError"
  unfolding buildScopusQuery_encodes by (drule encodeURIComponent_error) simp

lemma generateIEEEURL_not_unsupported:
  "generateIEEEURL fd \<noteq> Inl (Error m)"
proof (cases "buildIEEEQueryText (searchTerms fd)")
  case (Inl e)
  with buildIEEEQueryText_error [OF Inl] show ?thesis by (simp add: generateIEEEURL_def)
next
  case (Inr q)
  then show ?thesis by (simp add: generateIEEEURL_def Let_def)
qed

lemma generateScopusURL_not_unsupported:
  "generateScopusURL fd \<noteq> Inl (Error m)"
proof (cases "buildScopusQuery (searchTerms fd)")
  case (Inl e)
  with buildScopusQuery_error [OF Inl] show ?thesis by (simp add: generateScopusURL_def)
next
  case (Inr q)
  note q = this
  show ?thesis
  proof (cases "encodeURIComponent (yearClause fd)")
    case (Inl e)
    with encodeURIComponent_error [OF Inl] q show ?thesis
      by (simp add: generateScopusURL_def Let_def)
  next
    case (Inr y)
    with q show ?thesis by (simp add: generateScopusURL_def Let_def)
  qed
qed

text \<open>
  Claim C8 speaks of the target of the model. \<open>generateURL\<close> does not read it: given a
  model whose database is \<open>pubmed\<close>, a new generator returns the IEEE URL and no error;
  and for the well-formed model of scenario 1, whose database is \<open>ieee\<close>, a generator
  whose current database is \<open>pubmed\<close> throws.
\<close>

theorem generateURL_target_counterexample:
  "database (scenario1\<lparr>database := js ''pubmed''\<rparr>) \<noteq> js ''ieee''
   \<and> database (scenario1\<lparr>database := js ''pubmed''\<rparr>) \<noteq> js ''scopus''
   \<and> generateURL new_SearchURLGenerator (scenario1\<lparr>database := js ''pubmed''\<rparr>) =
     Inr (js ''https://ieeexplore.ieee.org/search/searchresult.jsp?action=search&newsearch=true&matchBoolean=true&queryText=%28%28%2522All%2520Metadata%2522%253A%2522neural%2520decoding%2522%29%2520OR%2520%28%2522All%2520Metadata%2522%253A%2522brain%2520decoding%2522%29%29&ranges=2019_2026_Year'')
   \<and> wellFormedModel scenario1
   \<and> database scenario1 = js ''ieee''
   \<and> generateURL (setDatabase (js ''pubmed'') new_SearchURLGenerator) scenario1
     = Inl (Error (js ''Unsupported database type''))"
proof -
  have d: "database (scenario1\<lparr>database := js ''pubmed''\<rparr>) \<noteq> js ''ieee''"
    "database (scenario1\<lparr>database := js ''pubmed''\<rparr>) \<noteq> js ''scopus''"
    "database scenario1 = js ''ieee''"
    by (simp_all add: scenario1_def js_def)
  have "generateURL new_SearchURLGenerator (scenario1\<lparr>database := js ''pubmed''\<rparr>)
        = generateIEEEURL (scenario1\<lparr>database := js ''pubmed''\<rparr>)"
    by (simp add: generateURL_def new_SearchURLGenerator_def)
  also have "\<dots> = generateIEEEURL scenario1"
    by (rule generateIEEEURL_cong) simp_all
  finally have u: "generateURL new_SearchURLGenerator (scenario1\<lparr>database := js ''pubmed''\<rparr>) =
     Inr (js ''https://ieeexplore.ieee.org/search/searchresult.jsp?action=search&newsearch=true&matchBoolean=true&queryText=%28%28%2522All%2520Metadata%2522%253A%2522neural%2520decoding%2522%29%2520OR%2520%28%2522All%2520Metadata%2522%253A%2522brain%2520decoding%2522%29%29&ranges=2019_2026_Year'')"
    by (simp only: scenario1_generateIEEEURL)
  have e: "generateURL (setDatabase (js ''pubmed'') new_SearchURLGenerator) scenario1
     = Inl (Error (js ''Unsupported database type''))"
    by (simp add: generateURL_def setDatabase_def js_def)
  from d u e wellFormedModel_scenario1 show ?thesis by blast
qed

text \<open>
  Claim C8, amended: \<open>generateURL\<close> signals the unsupported-target error exactly when the
  target it dispatches on, the generator's current database and not the target of the
  model, is neither \<open>ieee\<close> nor \<open>scopus\<close>. For a generator whose current database is one
  of the two and a well-formed model (strings without unpaired surrogate, years and
  page size safe integers) it does not throw: it returns the whole URL, the base
  address and every parameter, and the value it puts into \<open>queryText\<close> or \<open>s\<close> consists
  of characters of an encoded value only (no quote, parenthesis, space, \<open>=\<close> or \<open>&\<close>).
  When no group has a non-blank term, the query fragment is the empty string and the
  URLs carry an empty \<open>queryText\<close> and an \<open>s\<close> holding only the year clause; no
  parentheses are emitted.
\<close>

theorem generateURL_error_handling:
  "(generateURL g fd = Inl (Error (js ''Unsupported database type'')))
     = (currentDatabase g \<noteq> js ''ieee'' \<and> currentDatabase g \<noteq> js ''scopus'')
   \<and> (wellFormedModel fd \<and> safeNumbers fd \<and> currentDatabase g = js ''ieee'' \<longrightarrow>
        (\<exists>v. generateURL g fd =
               Inr (js ''https://ieeexplore.ieee.org/search/searchresult.jsp?action=search&newsearch=true&matchBoolean=true&queryText=''
                    @ v @ js ''&ranges='' @ numberToString (startYear fd) @ js ''_''
                    @ numberToString (endYear fd) @ js ''_Year'')
              \<and> list_all valueChar v))
   \<and> (wellFormedModel fd \<and> safeNumbers fd \<and> currentDatabase g = js ''scopus'' \<longrightarrow>
        (\<exists>v. generateURL g fd =
               Inr (js ''https://www.scopus.com/results/results.uri?sort=plf-f&src=s&sot=a&sdt=a&sl=211&s=''
                    @ v @ js ''&origin=searchadvanced&editSaveSearch=&limit=''
                    @ numberToString (resultsPerPage fd))
              \<and> list_all valueChar v))
   \<and> (\<not> hasValidTerms fd \<longrightarrow>
        ieeeFullQuery (searchTerms fd) = [] \<and> scopusFullQuery (searchTerms fd) = []
        \<and> buildIEEEQueryText (searchTerms fd) = Inr []
        \<and> buildScopusQuery (searchTerms fd) = Inr [])
   \<and> (\<not> hasValidTerms fd \<and> safeNumbers fd \<longrightarrow>
        generateIEEEURL fd =
            Inr (js ''https://ieeexplore.ieee.org/search/searchresult.jsp?action=search&newsearch=true&matchBoolean=true&queryText=&ranges=''
                 @ numberToString (startYear fd) @ js ''_'' @ numberToString (endYear fd)
                 @ js ''_Year'')
        \<and> generateScopusURL fd =
            Inr (js ''https://www.scopus.com/results/results.uri?sort=plf-f&src=s&sot=a&sdt=a&sl=211&s=+AND%2520PUBYEAR%2520%253E%2520''
                 @ numberToString (startYear fd) @ js ''%2520AND%2520PUBYEAR%2520%253C%2520''
                 @ numberToString (endYear fd + 1)
                 @ js ''&origin=searchadvanced&editSaveSearch=&limit=''
                 @ numberToString (resultsPerPage fd)))"
proof -
  have u: "(generateURL g fd = Inl (Error (js ''Unsupported database type'')))
     = (currentDatabase g \<noteq> js ''ieee'' \<and> currentDatabase g \<noteq> js ''scopus'')"
    by (simp add: generateURL_def generateIEEEURL_not_unsupported
        generateScopusURL_not_unsupported)
  have i: "\<exists>v. generateURL g fd =
               Inr (js ''https://ieeexplore.ieee.org/search/searchresult.jsp?action=search&newsearch=true&matchBoolean=true&queryText=''
                    @ v @ js ''&ranges='' @ numberToString (startYear fd) @ js ''_''
                    @ numberToString (endYear fd) @ js ''_Year'')
              \<and> list_all valueChar v"
    if wf: "wellFormedModel fd" and safe: "safeNumbers fd"
      and db: "currentDatabase g = js ''ieee''"
  proof -
    from safe have x: "isExactInteger (startYear fd)" "isExactInteger (endYear fd)"
      by (simp_all add: safeNumbers_def isSafeInteger_exact)
    from wellFormedModel_ieeeQuery [OF wf]
    obtain q where q: "encodeURIComponent (ieeeFullQuery (searchTerms fd)) = Inr q" ..
    then have "isAscii q" by (rule encodeURIComponent_ascii)
    then have "list_all valueChar (formEncode q)" by (rule formEncode_valueChars)
    moreover have "generateURL g fd =
               Inr (js ''https://ieeexplore.ieee.org/search/searchresult.jsp?action=search&newsearch=true&matchBoolean=true&queryText=''
                    @ formEncode q @ js ''&ranges='' @ numberToString (startYear fd) @ js ''_''
                    @ numberToString (endYear fd) @ js ''_Year'')"
      using db q by (simp add: generateURL_def generateIEEEURL_shape [OF x])
    ultimately show ?thesis by blast
  qed
  have s: "\<exists>v. generateURL g fd =
               Inr (js ''https://www.scopus.com/results/results.uri?sort=plf-f&src=s&sot=a&sdt=a&sl=211&s=''
                    @ v @ js ''&origin=searchadvanced&editSaveSearch=&limit=''
                    @ numberToString (resultsPerPage fd))
              \<and> list_all valueChar v"
    if wf: "wellFormedModel fd" and safe: "safeNumbers fd"
      and db: "currentDatabase g = js ''scopus''"
  proof -
    from safe have x: "isExactInteger (startYear fd)" and e: "isSafeInteger (endYear fd)"
      by (simp_all add: safeNumbers_def isSafeInteger_exact)
    from wellFormedModel_scopusQuery [OF wf]
    obtain q where q: "encodeURIComponent (scopusFullQuery (searchTerms fd)) = Inr q" ..
    then have qa: "isAscii q" by (rule encodeURIComponent_ascii)
    let ?y = "js ''AND%20PUBYEAR%20%3E%20'' @ numberToString (startYear fd)
              @ js ''%20AND%20PUBYEAR%20%3C%20'' @ numberToString (endYear fd + 1)"
    have "isAscii ?y"
      using encodeURIComponent_yearClause [OF x e] by (rule encodeURIComponent_ascii)
    moreover have "isAscii (js '' '')" by (simp add: js_def isAscii_def)
    ultimately have "isAscii (q @ js '' '' @ ?y)" using qa by simp
    then have "list_all valueChar (formEncode (q @ js '' '' @ ?y))"
      by (rule formEncode_valueChars)
    moreover have ne: "js ''scopus'' \<noteq> js ''ieee''" by (simp add: js_def)
    have "generateURL g fd =
               Inr (js ''https://www.scopus.com/results/results.uri?sort=plf-f&src=s&sot=a&sdt=a&sl=211&s=''
                    @ formEncode (q @ js '' '' @ ?y)
                    @ js ''&origin=searchadvanced&editSaveSearch=&limit=''
                    @ numberToString (resultsPerPage fd))"
      using db q ne by (simp add: generateURL_def generateScopusURL_shape [OF safe])
    ultimately show ?thesis by blast
  qed
  have e: "ieeeFullQuery (searchTerms fd) = [] \<and> scopusFullQuery (searchTerms fd) = []
        \<and> buildIEEEQueryText (searchTerms fd) = Inr []
        \<and> buildScopusQuery (searchTerms fd) = Inr []"
    if b: "\<not> hasValidTerms fd"
    by (simp add: ieeeFullQuery_def scopusFullQuery_def buildIEEEQueryText_def
        buildScopusQuery_def blank_ieeeTermGroups [OF b] blank_scopusTermGroups [OF b])
  have f: "generateIEEEURL fd =
            Inr (js ''https://ieeexplore.ieee.org/search/searchresult.jsp?action=search&newsearch=true&matchBoolean=true&queryText=&ranges=''
                 @ numberToString (startYear fd) @ js ''_'' @ numberToString (endYear fd)
                 @ js ''_Year'')
        \<and> generateScopusURL fd =
            Inr (js ''https://www.scopus.com/results/results.uri?sort=plf-f&src=s&sot=a&sdt=a&sl=211&s=+AND%2520PUBYEAR%2520%253E%2520''
                 @ numberToString (startYear fd) @ js ''%2520AND%2520PUBYEAR%2520%253C%2520''
                 @ numberToString (endYear fd + 1)
                 @ js ''&origin=searchadvanced&editSaveSearch=&limit=''
                 @ numberToString (resultsPerPage fd))"
    if b: "\<not> hasValidTerms fd" and safe: "safeNumbers fd"
  proof -
    from safe have x: "isExactInteger (startYear fd)" "isExactInteger (endYear fd)"
      and x1: "isExactInteger (endYear fd + 1)"
      by (simp_all add: safeNumbers_def isSafeInteger_exact isSafeInteger_succ_exact)
    have fi: "ieeeFullQuery (searchTerms fd) = []"
      by (simp add: ieeeFullQuery_def blank_ieeeTermGroups [OF b])
    have fs: "scopusFullQuery (searchTerms fd) = []"
      by (simp add: scopusFullQuery_def blank_scopusTermGroups [OF b])
    have gi: "generateIEEEURL fd =
            Inr (js ''https://ieeexplore.ieee.org/search/searchresult.jsp?action=search&newsearch=true&matchBoolean=true&queryText=&ranges=''
                 @ numberToString (startYear fd) @ js ''_'' @ numberToString (endYear fd)
                 @ js ''_Year'')"
      unfolding generateIEEEURL_shape [OF x] fi
      by (simp add: formEncode_Nil) (simp add: js_def)
    have "formEncode ([] @ js '' '' @ js ''AND%20PUBYEAR%20%3E%20''
                      @ numberToString (startYear fd) @ js ''%20AND%20PUBYEAR%20%3C%20''
                      @ numberToString (endYear fd + 1))
          = js ''+'' @ js ''AND%2520PUBYEAR%2520%253E%2520'' @ numberToString (startYear fd)
            @ js ''%2520AND%2520PUBYEAR%2520%253C%2520'' @ numberToString (endYear fd + 1)"
      using formEncode_space_append [of "[]"]
      by (simp add: formEncode_Nil formEncode_encodedYear [OF x(1) x1])
    then have gs: "generateScopusURL fd =
            Inr (js ''https://www.scopus.com/results/results.uri?sort=plf-f&src=s&sot=a&sdt=a&sl=211&s=+AND%2520PUBYEAR%2520%253E%2520''
                 @ numberToString (startYear fd) @ js ''%2520AND%2520PUBYEAR%2520%253C%2520''
                 @ numberToString (endYear fd + 1)
                 @ js ''&origin=searchadvanced&editSaveSearch=&limit=''
                 @ numberToString (resultsPerPage fd))"
      unfolding generateScopusURL_shape [OF safe] fs by simp (simp add: js_def)
    from gi gs show ?thesis by blast
  qed
  from u i s e f show ?thesis by blast
qed

theorem generateURL_error_handling_witness:
  "generateURL (setDatabase (js ''pubmed'') new_SearchURLGenerator) scenario1
     = Inl (Error (js ''Unsupported database type''))
   \<and> wellFormedModel scenario1
   \<and> safeNumbers scenario1
   \<and> currentDatabase new_SearchURLGenerator = js ''ieee''
   \<and> (\<exists>v. generateURL new_SearchURLGenerator scenario1 =
               Inr (js ''https://ieeexplore.ieee.org/search/searchresult.jsp?action=search&newsearch=true&matchBoolean=true&queryText=''
                    @ v @ js ''&ranges='' @ numberToString (startYear scenario1) @ js ''_''
                    @ numberToString (endYear scenario1) @ js ''_Year'')
              \<and> list_all valueChar v)
   \<and> wellFormedModel scenario2
   \<and> safeNumbers scenario2
   \<and> currentDatabase (setDatabase (js ''scopus'') new_SearchURLGenerator) = js ''scopus''
   \<and> (\<exists>v. generateURL (setDatabase (js ''scopus'') new_SearchURLGenerator) scenario2 =
               Inr (js ''https://www.scopus.com/results/results.uri?sort=plf-f&src=s&sot=a&sdt=a&sl=211&s=''
                    @ v @ js ''&origin=searchadvanced&editSaveSearch=&limit=''
                    @ numberToString (resultsPerPage scenario2))
              \<and> list_all valueChar v)
   \<and> \<not> hasValidTerms scenario3
   \<and> safeNumbers scenario3
   \<and> buildIEEEQueryText (searchTerms scenario3) = Inr []
   \<and> buildScopusQuery (searchTerms scenario3) = Inr []
   \<and> generateIEEEURL scenario3 =
       Inr (js ''https://ieeexplore.ieee.org/search/searchresult.jsp?action=search&newsearch=true&matchBoolean=true&queryText=&ranges=''
            @ numberToString (startYear scenario3) @ js ''_''
            @ numberToString (endYear scenario3) @ js ''_Year'')"
proof -
  have p: "currentDatabase (setDatabase (js ''pubmed'') new_SearchURLGenerator) \<noteq> js ''ieee''
           \<and> currentDatabase (setDatabase (js ''pubmed'') new_SearchURLGenerator) \<noteq> js ''scopus''"
    by (simp add: setDatabase_def js_def)
  have i: "currentDatabase new_SearchURLGenerator = js ''ieee''"
    by (simp add: new_SearchURLGenerator_def)
  have s: "currentDatabase (setDatabase (js ''scopus'') new_SearchURLGenerator) = js ''scopus''"
    by (simp add: setDatabase_def)
  have h3: "\<not> hasValidTerms scenario3"
    by (simp add: hasValidTerms_def scenario3_def scenarioGroup_def str_defs)
  from generateURL_error_handling
         [of "setDatabase (js ''pubmed'') new_SearchURLGenerator" scenario1] p
  have a: "generateURL (setDatabase (js ''pubmed'') new_SearchURLGenerator) scenario1
     = Inl (Error (js ''Unsupported database type''))" by blast
  from generateURL_error_handling [of new_SearchURLGenerator scenario1]
    wellFormedModel_scenario1 safeNumbers_scenarios(1) i
  have b: "\<exists>v. generateURL new_SearchURLGenerator scenario1 =
               Inr (js ''https://ieeexplore.ieee.org/search/searchresult.jsp?action=search&newsearch=true&matchBoolean=true&queryText=''
                    @ v @ js ''&ranges='' @ numberToString (startYear scenario1) @ js ''_''
                    @ numberToString (endYear scenario1) @ js ''_Year'')
              \<and> list_all valueChar v" by blast
  from generateURL_error_handling
         [of "setDatabase (js ''scopus'') new_SearchURLGenerator" scenario2]
    wellFormedModel_scenario2 safeNumbers_scenarios(2) s
  have c: "\<exists>v. generateURL (setDatabase (js ''scopus'') new_SearchURLGenerator) scenario2 =
               Inr (js ''https://www.scopus.com/results/results.uri?sort=plf-f&src=s&sot=a&sdt=a&sl=211&s=''
                    @ v @ js ''&origin=searchadvanced&editSaveSearch=&limit=''
                    @ numberToString (resultsPerPage scenario2))
              \<and> list_all valueChar v" by blast
  from generateURL_error_handling [of new_SearchURLGenerator scenario3] h3
    safeNumbers_scenarios(3)
  have d: "buildIEEEQueryText (searchTerms scenario3) = Inr []
           \<and> buildScopusQuery (searchTerms scenario3) = Inr []
           \<and> generateIEEEURL scenario3 =
       Inr (js ''https://ieeexplore.ieee.org/search/searchresult.jsp?action=search&newsearch=true&matchBoolean=true&queryText=&ranges=''
            @ numberToString (startYear scenario3) @ js ''_''
            @ numberToString (endYear scenario3) @ js ''_Year'')" by blast
  from a b c d wellFormedModel_scenario1 wellFormedModel_scenario2 safeNumbers_scenarios i s h3
  show ?thesis by blast
qed

subsection \<open>C9: blank terms and blank groups\<close>

lemma buildIEEEQueryText_termGroups:
  "ieeeTermGroups a = ieeeTermGroups b \<Longrightarrow> buildIEEEQueryText a = buildIEEEQueryText b"
  by (simp add: buildIEEEQueryText_def ieeeFullQuery_def)

lemma buildScopusQuery_termGroups:
  "scopusTermGroups a = scopusTermGroups b \<Longrightarrow> buildScopusQuery a = buildScopusQuery b"
  by (simp add: buildScopusQuery_def scopusFullQuery_def)

lemma generateIEEEURL_termGroups:
  assumes t: "ieeeTermGroups (searchTerms a) = ieeeTermGroups (searchTerms b)"
    and s: "startYear a = startYear b" and e: "endYear a = endYear b"
  shows "generateIEEEURL a = generateIEEEURL b"
  unfolding generateIEEEURL_def buildIEEEQueryText_termGroups [OF t] s e by (rule refl)

lemma generateScopusURL_termGroups:
  assumes t: "scopusTermGroups (searchTerms a) = scopusTermGroups (searchTerms b)"
    and s: "startYear a = startYear b" and e: "endYear a = endYear b"
    and r: "resultsPerPage a = resultsPerPage b"
  shows "generateScopusURL a = generateScopusURL b"
  unfolding generateScopusURL_def yearClause_def buildScopusQuery_termGroups [OF t] s e r
  by (rule refl)

lemma trim_blank_literals: "trim [] = []" "trim (js ''  '') = []"
  by (simp_all add: str_defs)

lemma blank_filtered_ieee:
  "ieeeGroupTerms (grp\<lparr>terms := [js '''', js ''  '', x]\<rparr>) = ieeeGroupTerms (grp\<lparr>terms := [x]\<rparr>)"
  using trim_blank_literals by (simp add: ieeeGroupTerms_def ieeeClause_spec js_def)

lemma blank_filtered_scopus:
  "scopusGroupTerms (grp\<lparr>terms := [js '''', js ''  '', x]\<rparr>)
   = scopusGroupTerms (grp\<lparr>terms := [x]\<rparr>)"
  using trim_blank_literals by (simp add: scopusGroupTerms_def scopusClause_spec js_def)

lemma blank_group_ieee:
  "list_all isBlank (terms grp) \<Longrightarrow>
   ieeeTermGroups (pre @ grp # post) = ieeeTermGroups (pre @ post)"
  unfolding ieeeTermGroups_eq by (simp add: filter_empty_conv list_all_iff isBlank_def)

lemma blank_group_scopus:
  "list_all isBlank (terms grp) \<Longrightarrow>
   scopusTermGroups (pre @ grp # post) = scopusTermGroups (pre @ post)"
  unfolding scopusTermGroups_eq by (simp add: filter_empty_conv list_all_iff isBlank_def)

text \<open>
  Claim C9: for every model, every position of a group (any groups \<open>pre\<close> before it and
  \<open>post\<close> after it) and every target, the group with the terms \<open>""\<close>, two spaces and \<open>x\<close>
  compiles to the same result as the group with the term \<open>x\<close> alone; and a group whose
  terms are all blank can be deleted without changing the compiled result or the query
  fragment, so it contributes no clause and no operator.
\<close>

theorem blank_terms_and_groups_ignored:
  "generateURL g (fd\<lparr>searchTerms := pre @ grp\<lparr>terms := [js '''', js ''  '', x]\<rparr> # post\<rparr>)
     = generateURL g (fd\<lparr>searchTerms := pre @ grp\<lparr>terms := [x]\<rparr> # post\<rparr>)
   \<and> (list_all isBlank (terms grp) \<longrightarrow>
        generateURL g (fd\<lparr>searchTerms := pre @ grp # post\<rparr>)
          = generateURL g (fd\<lparr>searchTerms := pre @ post\<rparr>)
        \<and> ieeeFullQuery (pre @ grp # post) = ieeeFullQuery (pre @ post)
        \<and> scopusFullQuery (pre @ grp # post) = scopusFullQuery (pre @ post))"
proof -
  have i1: "ieeeTermGroups (pre @ grp\<lparr>terms := [js '''', js ''  '', x]\<rparr> # post)
            = ieeeTermGroups (pre @ grp\<lparr>terms := [x]\<rparr> # post)"
    by (simp add: ieeeTermGroups_def blank_filtered_ieee)
  have s1: "scopusTermGroups (pre @ grp\<lparr>terms := [js '''', js ''  '', x]\<rparr> # post)
            = scopusTermGroups (pre @ grp\<lparr>terms := [x]\<rparr> # post)"
    by (simp add: scopusTermGroups_def blank_filtered_scopus)
  have a: "generateURL g (fd\<lparr>searchTerms := pre @ grp\<lparr>terms := [js '''', js ''  '', x]\<rparr> # post\<rparr>)
     = generateURL g (fd\<lparr>searchTerms := pre @ grp\<lparr>terms := [x]\<rparr> # post\<rparr>)"
    unfolding generateURL_def
    using generateIEEEURL_termGroups
            [of "fd\<lparr>searchTerms := pre @ grp\<lparr>terms := [js '''', js ''  '', x]\<rparr> # post\<rparr>"
                "fd\<lparr>searchTerms := pre @ grp\<lparr>terms := [x]\<rparr> # post\<rparr>"]
          generateScopusURL_termGroups
            [of "fd\<lparr>searchTerms := pre @ grp\<lparr>terms := [js '''', js ''  '', x]\<rparr> # post\<rparr>"
                "fd\<lparr>searchTerms := pre @ grp\<lparr>terms := [x]\<rparr> # post\<rparr>"]
          i1 s1
    by simp
  have b: "generateURL g (fd\<lparr>searchTerms := pre @ grp # post\<rparr>)
          = generateURL g (fd\<lparr>searchTerms := pre @ post\<rparr>)
        \<and> ieeeFullQuery (pre @ grp # post) = ieeeFullQuery (pre @ post)
        \<and> scopusFullQuery (pre @ grp # post) = scopusFullQuery (pre @ post)"
    if bl: "list_all isBlank (terms grp)"
  proof -
    note i2 = blank_group_ieee [OF bl, of pre post]
    note s2 = blank_group_scopus [OF bl, of pre post]
    have "generateURL g (fd\<lparr>searchTerms := pre @ grp # post\<rparr>)
          = generateURL g (fd\<lparr>searchTerms := pre @ post\<rparr>)"
      unfolding generateURL_def
      using generateIEEEURL_termGroups
              [of "fd\<lparr>searchTerms := pre @ grp # post\<rparr>" "fd\<lparr>searchTerms := pre @ post\<rparr>"]
            generateScopusURL_termGroups
              [of "fd\<lparr>searchTerms := pre @ grp # post\<rparr>" "fd\<lparr>searchTerms := pre @ post\<rparr>"]
            i2 s2
      by simp
    with i2 s2 show ?thesis by (simp add: ieeeFullQuery_def scopusFullQuery_def)
  qed
  from a b show ?thesis by blast
qed

theorem blank_terms_and_groups_ignored_witness:
  "list_all isBlank (terms (scenarioGroup\<lparr>terms := [js '''', js ''  '']\<rparr>))
   \<and> generateURL new_SearchURLGenerator
        (scenario1\<lparr>searchTerms := [scenarioGroup] @ scenarioGroup\<lparr>terms := [js '''', js ''  '']\<rparr> # []\<rparr>)
      = generateURL new_SearchURLGenerator (scenario1\<lparr>searchTerms := [scenarioGroup] @ []\<rparr>)
   \<and> ieeeFullQuery ([scenarioGroup] @ scenarioGroup\<lparr>terms := [js '''', js ''  '']\<rparr> # [])
      = ieeeFullQuery ([scenarioGroup] @ [])"
proof -
  have bl: "list_all isBlank (terms (scenarioGroup\<lparr>terms := [js '''', js ''  '']\<rparr>))"
    using trim_blank_literals by (simp add: isBlank_def js_def)
  from blank_terms_and_groups_ignored
         [where grp = "scenarioGroup\<lparr>terms := [js '''', js ''  '']\<rparr>" and pre = "[scenarioGroup]"
            and post = "[]" and g = new_SearchURLGenerator and fd = scenario1] bl
  show ?thesis by blast
qed

end
